theory Spec2Isabelle
  imports Main
begin

section \<open>Strings\<close>

text \<open>
  Python strings are modelled as \<open>string\<close> (lists of characters). The plugins use
  \<^verbatim>\<open>str.lower\<close>, \<^verbatim>\<open>str.upper\<close> and the substring test \<^verbatim>\<open>key in s\<close>. Case conversion
  is modelled on the ASCII letters; every other character is left as it is.
\<close>

definition ascii_upper :: string where
  "ascii_upper = ''ABCDEFGHIJKLMNOPQRSTUVWXYZ''"

definition ascii_lower :: string where
  "ascii_lower = ''abcdefghijklmnopqrstuvwxyz''"

definition lower_char :: "char \<Rightarrow> char" where
  "lower_char c = (case map_of (zip ascii_upper ascii_lower) c of Some d \<Rightarrow> d | None \<Rightarrow> c)"

definition upper_char :: "char \<Rightarrow> char" where
  "upper_char c = (case map_of (zip ascii_lower ascii_upper) c of Some d \<Rightarrow> d | None \<Rightarrow> c)"

definition lower :: "string \<Rightarrow> string" where
  "lower s = map lower_char s"

definition upper :: "string \<Rightarrow> string" where
  "upper s = map upper_char s"

fun startswith :: "string \<Rightarrow> string \<Rightarrow> bool" where
  "startswith s [] = True"
| "startswith [] (p # ps) = False"
| "startswith (c # s) (p # ps) = (c = p \<and> startswith s ps)"

text \<open>\<open>contains sub s\<close> is Python's \<^verbatim>\<open>sub in s\<close> on strings.\<close>

fun contains :: "string \<Rightarrow> string \<Rightarrow> bool" where
  "contains sub [] = (sub = [])"
| "contains sub (c # s) = (startswith (c # s) sub \<or> contains sub s)"

definition quote :: char where
  "quote = CHR 0x27"

definition newline :: char where
  "newline = CHR 0x0A"

definition first_line :: "string \<Rightarrow> string" where
  "first_line s = takeWhile (\<lambda>c. c \<noteq> newline) s"

section \<open>Plugins\<close>

subsection \<open>ResearchPlugin.search_information\<close>

definition research_data :: "(string \<times> string) list" where
  "research_data =
    [(''python'', ''Python is a high-level, interpreted programming language known for its simplicity and readability. It was created by Guido van Rossum and first released in 1991.''),
     (''ai'', ''Artificial Intelligence (AI) refers to the simulation of human intelligence in machines. It includes machine learning, natural language processing, and computer vision.''),
     (''quantum computing'', ''Quantum computing uses quantum-mechanical phenomena like superposition and entanglement to perform operations on data. It has the potential to solve certain problems much faster than classical computers.'')]"

text \<open>The loop over \<^verbatim>\<open>research_data.items()\<close>: the first key contained in the topic wins.\<close>

fun first_match :: "(string \<times> string) list \<Rightarrow> string \<Rightarrow> string option" where
  "first_match [] topic_lower = None"
| "first_match ((key, v) # items) topic_lower =
     (if contains key topic_lower then Some v else first_match items topic_lower)"

definition search_information :: "string \<Rightarrow> string" where
  "search_information topic =
     (let topic_lower = lower topic in
      case first_match research_data topic_lower of
        Some v \<Rightarrow> v
      | None \<Rightarrow> ''Research on '' @ [quote] @ topic @ [quote]
                 @ '': This is a complex topic that requires further investigation.'')"

subsection \<open>DataAnalysisPlugin.analyze_data\<close>

definition analyze_data :: "string \<Rightarrow> string" where
  "analyze_data data_description =
     ''Analysis of '' @ [quote] @ data_description @ [quote]
     @ '': The data shows a positive trend with a 15% increase over the previous period. Key insights include improved performance metrics and user engagement.''"

subsection \<open>WritingPlugin.create_content\<close>

definition create_content :: "string \<Rightarrow> string \<Rightarrow> string" where
  "create_content topic style =
     ''['' @ upper style @ '' CONTENT]'' @ [newline, newline] @ topic @ [newline, newline]
     @ ''This is a well-crafted piece of content tailored to the '' @ style
     @ '' style, covering the key aspects of '' @ topic
     @ '' with appropriate depth and clarity.''"

section \<open>Conversation\<close>

text \<open>
  \<^verbatim>\<open>ChatHistory\<close> is the ordered log of turns. The source appends to it with
  \<^verbatim>\<open>add_system_message\<close>, \<^verbatim>\<open>add_user_message\<close> and \<^verbatim>\<open>add_assistant_message\<close>; it never
  removes or rewrites a turn. The role \<open>ToolResult\<close> is the fourth role of the data model;
  no line of the source appends a turn with it: such turns come into the history during
  the call of the completion service, which is handed the history object.
\<close>

datatype author_role = System | User | Assistant | ToolResult

record turn =
  turn_role :: author_role
  turn_content :: string

type_synonym chat_history = "turn list"

definition ChatHistory :: chat_history where
  "ChatHistory = []"

definition add_system_message :: "chat_history \<Rightarrow> string \<Rightarrow> chat_history" where
  "add_system_message h s = h @ [\<lparr>turn_role = System, turn_content = s\<rparr>]"

definition add_user_message :: "chat_history \<Rightarrow> string \<Rightarrow> chat_history" where
  "add_user_message h s = h @ [\<lparr>turn_role = User, turn_content = s\<rparr>]"

definition add_assistant_message :: "chat_history \<Rightarrow> string \<Rightarrow> chat_history" where
  "add_assistant_message h s = h @ [\<lparr>turn_role = Assistant, turn_content = s\<rparr>]"

definition tool_result_turn :: "string \<Rightarrow> turn" where
  "tool_result_turn s = \<lparr>turn_role = ToolResult, turn_content = s\<rparr>"

text \<open>
  The turns of one round trip: the User turn of the message, the ToolResult turns of the
  tools invoked, and the Assistant turn of the reply.
\<close>

definition exchange :: "string \<Rightarrow> string list \<Rightarrow> string \<Rightarrow> turn list" where
  "exchange message tool_results reply =
     [\<lparr>turn_role = User, turn_content = message\<rparr>] @ map tool_result_turn tool_results
       @ [\<lparr>turn_role = Assistant, turn_content = reply\<rparr>]"

section \<open>Dictionaries\<close>

text \<open>
  A Python \<^verbatim>\<open>dict\<close> keeps its keys in insertion order: \<^verbatim>\<open>d[k] = v\<close> replaces the value
  in place when \<open>k\<close> is present and appends the entry otherwise; \<^verbatim>\<open>d.get(k)\<close> is the
  value or \<^verbatim>\<open>None\<close>; \<^verbatim>\<open>d.values()\<close> lists the values in insertion order.
\<close>

type_synonym ('k, 'v) dict = "('k \<times> 'v) list"

fun dict_set :: "('k, 'v) dict \<Rightarrow> 'k \<Rightarrow> 'v \<Rightarrow> ('k, 'v) dict" where
  "dict_set [] k v = [(k, v)]"
| "dict_set ((k', v') # d) k v =
     (if k' = k then (k', v) # d else (k', v') # dict_set d k v)"

definition dict_get :: "('k, 'v) dict \<Rightarrow> 'k \<Rightarrow> 'v option" where
  "dict_get d k = map_of d k"

definition dict_values :: "('k, 'v) dict \<Rightarrow> 'v list" where
  "dict_values d = map snd d"

section \<open>Kernel and completion service\<close>

text \<open>
  \<^verbatim>\<open>Kernel\<close>, \<^verbatim>\<open>GoogleAIChatCompletion\<close> and the prompt execution settings belong to the
  \<^verbatim>\<open>semantic_kernel\<close> library, which the source imports. The model keeps what the source
  does with them: the kernel holds a dictionary of plugins keyed by plugin name and a
  dictionary of services keyed by service id; \<^verbatim>\<open>add_plugin\<close> stores the plugin under its
  name; \<^verbatim>\<open>add_service\<close> refuses a service id that is already present; \<^verbatim>\<open>get_service\<close> and
  \<^verbatim>\<open>get_prompt_execution_settings_from_service_id\<close> look the service up.
\<close>

datatype plugin = ResearchPlugin | DataAnalysisPlugin | WritingPlugin

record chat_completion =
  cc_service_id :: string
  cc_gemini_model_id :: string
  cc_api_key :: string

definition GoogleAIChatCompletion :: "string \<Rightarrow> string \<Rightarrow> string \<Rightarrow> chat_completion" where
  "GoogleAIChatCompletion sid model_id key =
     \<lparr>cc_service_id = sid, cc_gemini_model_id = model_id, cc_api_key = key\<rparr>"

record kernel =
  plugins :: "(string, plugin) dict"
  services :: "(string, chat_completion) dict"

definition Kernel :: kernel where
  "Kernel = \<lparr>plugins = [], services = []\<rparr>"

datatype function_choice_behavior = Auto

record execution_settings =
  es_service_id :: string
  function_choice :: "function_choice_behavior option"

text \<open>
  Exceptions are values. The source declares no exception class of its own:
  \<open>AttributeError\<close> is Python's error for an attribute that was never assigned,
  \<open>EOFError\<close> is raised by \<^verbatim>\<open>input\<close> at the end of the input,
  \<open>ServiceAlreadyExists\<close> and \<open>ServiceNotFound\<close> are the kernel's, and
  \<open>Uncaught e\<close> is an exception \<open>e\<close> raised inside the call of the completion service:
  no \<^verbatim>\<open>try\<close> stands around the call, so \<open>e\<close> leaves the calling function as it is.
\<close>

datatype 'e exn =
    AttributeError string
  | ServiceAlreadyExists string
  | ServiceNotFound string
  | Uncaught 'e
  | EOFError

definition kernel_add_plugin :: "kernel \<Rightarrow> plugin \<Rightarrow> string \<Rightarrow> kernel" where
  "kernel_add_plugin k p plugin_name = k\<lparr>plugins := dict_set (plugins k) plugin_name p\<rparr>"

definition kernel_add_service :: "kernel \<Rightarrow> chat_completion \<Rightarrow> 'e exn + kernel" where
  "kernel_add_service k s =
     (case dict_get (services k) (cc_service_id s) of
        Some _ \<Rightarrow> Inl (ServiceAlreadyExists (cc_service_id s))
      | None \<Rightarrow> Inr (k\<lparr>services := dict_set (services k) (cc_service_id s) s\<rparr>))"

definition kernel_get_service :: "kernel \<Rightarrow> string \<Rightarrow> 'e exn + chat_completion" where
  "kernel_get_service k sid =
     (case dict_get (services k) sid of
        None \<Rightarrow> Inl (ServiceNotFound sid)
      | Some s \<Rightarrow> Inr s)"

definition get_prompt_execution_settings_from_service_id ::
    "kernel \<Rightarrow> string \<Rightarrow> 'e exn + execution_settings" where
  "get_prompt_execution_settings_from_service_id k sid =
     (case dict_get (services k) sid of
        None \<Rightarrow> Inl (ServiceNotFound sid)
      | Some s \<Rightarrow> Inr \<lparr>es_service_id = sid, function_choice = None\<rparr>)"

text \<open>
  Modelled from the spec: the Completion Service, reached through the library call
  \<^verbatim>\<open>get_chat_message_content\<close>, is the remote language model together with the library's
  handling of tool calls; neither is part of the repository. The source hands the call the
  \<^verbatim>\<open>ChatHistory\<close> object itself, not a copy, with the settings and, in \<^verbatim>\<open>demo-2\<close>, the kernel
  and automatic function choice. While it runs, the call may invoke tools of the kernel;
  for every invocation it appends one ToolResult turn with the result of the tool to the
  history it was handed, in the order of the invocations, and the turns stay there when
  the call is over. The call then returns a response, a message that carries a text and
  the tool calls it still requests (none for a final answer), or it raises. A call is
  therefore a function of the request that yields the contents of the ToolResult turns it
  appended, and the response or the exception. \<^verbatim>\<open>str(response)\<close> is the text of the
  message. The service is a parameter of every function that calls it, so two calls need
  not be answered by the same function.
\<close>

record tool_call_record =
  tool_name :: string
  arguments :: "(string, string) dict"

record response =
  content :: string
  tool_calls :: "tool_call_record list"

definition str_response :: "response \<Rightarrow> string" where
  "str_response r = content r"

type_synonym 'e completion_service =
  "chat_completion \<Rightarrow> chat_history \<Rightarrow> execution_settings \<Rightarrow> kernel option
     \<Rightarrow> string list \<times> ('e + response)"

section \<open>Agent\<close>

text \<open>
  The attributes \<^verbatim>\<open>service_id\<close> and \<^verbatim>\<open>chat_service\<close> are assigned by \<^verbatim>\<open>initialize\<close>
  only; before that they do not exist, which is \<open>None\<close> here. The parameter
  \<^verbatim>\<open>service_id\<close> of \<^verbatim>\<open>initialize\<close> has the default "gemini-chat", which \<^verbatim>\<open>main\<close> uses; the
  model takes it as an argument. Every method returns the state it leaves the Agent in,
  next to its result or the exception it raises.
\<close>

record agent =
  name :: string
  role :: string
  system_message :: string
  kernel :: kernel
  chat_history :: chat_history
  service_id :: "string option"
  chat_service :: "chat_completion option"

definition Agent :: "string \<Rightarrow> string \<Rightarrow> string \<Rightarrow> agent" where
  "Agent n r sm =
     \<lparr>name = n, role = r, system_message = sm, kernel = Kernel,
      chat_history = add_system_message ChatHistory sm,
      service_id = None, chat_service = None\<rparr>"

definition initialize :: "agent \<Rightarrow> string \<Rightarrow> string \<Rightarrow> agent \<times> ('e exn + unit)" where
  "initialize a gemini_api_key sid =
     (case kernel_add_service (kernel a)
             (GoogleAIChatCompletion sid ''gemini-2.5-flash'' gemini_api_key) of
        Inl e \<Rightarrow> (a, Inl e)
      | Inr k \<Rightarrow>
          (let a1 = a\<lparr>kernel := k\<rparr>;
               a2 = a1\<lparr>service_id := Some sid\<rparr> in
           case kernel_get_service (kernel a2) sid of
             Inl e \<Rightarrow> (a2, Inl e)
           | Inr s \<Rightarrow> (a2\<lparr>chat_service := Some s\<rparr>, Inr ())))"

definition add_plugin :: "agent \<Rightarrow> plugin \<Rightarrow> string \<Rightarrow> agent" where
  "add_plugin a p plugin_name = a\<lparr>kernel := kernel_add_plugin (kernel a) p plugin_name\<rparr>"

definition process :: "'e completion_service \<Rightarrow> agent \<Rightarrow> string \<Rightarrow> agent \<times> ('e exn + string)" where
  "process svc a message =
     (let a1 = a\<lparr>chat_history := add_user_message (chat_history a) message\<rparr> in
      case service_id a1 of
        None \<Rightarrow> (a1, Inl (AttributeError ''service_id''))
      | Some sid \<Rightarrow>
          (case get_prompt_execution_settings_from_service_id (kernel a1) sid of
             Inl e \<Rightarrow> (a1, Inl e)
           | Inr settings \<Rightarrow>
               (let settings' = settings\<lparr>function_choice := Some Auto\<rparr> in
                case chat_service a1 of
                  None \<Rightarrow> (a1, Inl (AttributeError ''chat_service''))
                | Some cs \<Rightarrow>
                    (case svc cs (chat_history a1) settings' (Some (kernel a1)) of
                       (tool_results, outcome) \<Rightarrow>
                         (let a2 = a1\<lparr>chat_history :=
                                        chat_history a1 @ map tool_result_turn tool_results\<rparr> in
                          case outcome of
                            Inl e \<Rightarrow> (a2, Inl (Uncaught e))
                          | Inr response \<Rightarrow>
                              (a2\<lparr>chat_history :=
                                     add_assistant_message (chat_history a2)
                                       (str_response response)\<rparr>,
                               Inr (str_response response)))))))"

section \<open>Orchestrator\<close>

record orchestrator =
  agents :: "(string, agent) dict"

definition Orchestrator :: orchestrator where
  "Orchestrator = \<lparr>agents = []\<rparr>"

definition add_agent :: "orchestrator \<Rightarrow> agent \<Rightarrow> orchestrator" where
  "add_agent orch a = orch\<lparr>agents := dict_set (agents orch) (name a) a\<rparr>"

definition get_agent :: "orchestrator \<Rightarrow> string \<Rightarrow> agent option" where
  "get_agent orch n = dict_get (agents orch) n"

record agent_summary =
  summary_name :: string
  summary_role :: string

definition list_agents :: "orchestrator \<Rightarrow> agent_summary list" where
  "list_agents orch =
     map (\<lambda>a. \<lparr>summary_name = name a, summary_role = role a\<rparr>) (dict_values (agents orch))"

section \<open>Sessions\<close>

text \<open>
  After its construction an Agent is used through three methods. A session is the list of
  the calls made on one Agent, in order; every call leaves the Agent in a state, also
  when it raises, and the next call starts from that state.
\<close>

datatype 'e op =
    Initialize string string
  | AddPlugin plugin string
  | Process "'e completion_service" string

datatype 'e outcome = Done | Reply string | Raised "'e exn"

fun step :: "agent \<Rightarrow> 'e op \<Rightarrow> agent \<times> 'e outcome" where
  "step a (Initialize key sid) =
     (case initialize a key sid of
        (a', Inl e) \<Rightarrow> (a', Raised e)
      | (a', Inr _) \<Rightarrow> (a', Done))"
| "step a (AddPlugin p plugin_name) = (add_plugin a p plugin_name, Done)"
| "step a (Process svc message) =
     (case process svc a message of
        (a', Inl e) \<Rightarrow> (a', Raised e)
      | (a', Inr r) \<Rightarrow> (a', Reply r))"

fun run :: "agent \<Rightarrow> 'e op list \<Rightarrow> agent \<times> 'e outcome list" where
  "run a [] = (a, [])"
| "run a (x # xs) =
     (case step a x of (a', out) \<Rightarrow>
        (case run a' xs of (a'', outs) \<Rightarrow> (a'', out # outs)))"

fun is_reply :: "'e outcome \<Rightarrow> bool" where
  "is_reply (Reply r) = True"
| "is_reply Done = False"
| "is_reply (Raised e) = False"

definition is_system :: "turn \<Rightarrow> bool" where
  "is_system t = (turn_role t = System)"

definition is_tool_result :: "turn \<Rightarrow> bool" where
  "is_tool_result t = (turn_role t = ToolResult)"

subsection \<open>The agents of \<^verbatim>\<open>main\<close> and completion services for testing\<close>

definition research_agent :: "string \<Rightarrow> agent" where
  "research_agent google_api_key =
     add_plugin
       (fst (initialize
          (Agent ''ResearchAgent'' ''Research Specialist''
             ''You are a research specialist. Your job is to gather and summarize information on various topics. Use the search_information tool when needed.'')
          google_api_key ''gemini-chat'' :: agent \<times> (unit exn + unit)))
       ResearchPlugin ''ResearchPlugin''"

definition writer_agent :: "string \<Rightarrow> agent" where
  "writer_agent google_api_key =
     add_plugin
       (fst (initialize
          (Agent ''WriterAgent'' ''Content Writer''
             ''You are a professional content writer. Your job is to create well-written content on various topics. Use the create_content tool when needed.'')
          google_api_key ''gemini-chat'' :: agent \<times> (unit exn + unit)))
       WritingPlugin ''WritingPlugin''"

text \<open>
  A service that invokes the tool \<^verbatim>\<open>search_information\<close> \<open>n\<close> times during a call and then
  still answers with a request for a tool call.
\<close>

definition always_requests_tool :: "nat \<Rightarrow> unit completion_service" where
  "always_requests_tool n cs h settings k =
     (replicate n (search_information ''python''),
      Inr \<lparr>content = [],
           tool_calls = [\<lparr>tool_name = ''search_information'',
                          arguments = [(''topic'', ''python'')]\<rparr>]\<rparr>)"

text \<open>A service that answers every request with the same final text and invokes no tool.\<close>

definition answers :: "string \<Rightarrow> unit completion_service" where
  "answers s cs h settings k = ([], Inr \<lparr>content = s, tool_calls = []\<rparr>)"

text \<open>A service that is unreachable.\<close>

definition unreachable :: "unit completion_service" where
  "unreachable cs h settings k = ([], Inl ())"

text \<open>A service that invokes one tool and is unreachable when it asks the model again.\<close>

definition fails_after_tool :: "unit completion_service" where
  "fails_after_tool cs h settings k = ([search_information ''python''], Inl ())"

section \<open>The single chat session of \<^verbatim>\<open>demo-1\<close>\<close>

text \<open>
  \<^verbatim>\<open>main\<close> of \<^verbatim>\<open>demo-1\<close> keeps one Conversation without an Agent around it. The lines
  typed by the user are a list; \<^verbatim>\<open>input\<close> raises \<open>EOFError\<close> when the list is used up.
  The second component of the result is the list of the lines written with \<^verbatim>\<open>print\<close>
  (the prompt of \<^verbatim>\<open>input\<close> is left out). The call of the service passes no kernel.
\<close>

definition whitespace :: "char list" where
  "whitespace = [CHR 0x09, CHR 0x0A, CHR 0x0B, CHR 0x0C, CHR 0x0D,
                 CHR 0x1C, CHR 0x1D, CHR 0x1E, CHR 0x1F, CHR 0x20]"

definition strip :: "string \<Rightarrow> string" where
  "strip s = rev (dropWhile (\<lambda>c. c \<in> set whitespace)
               (rev (dropWhile (\<lambda>c. c \<in> set whitespace) s)))"

fun chat_loop ::
    "'e completion_service \<Rightarrow> kernel \<Rightarrow> chat_completion \<Rightarrow> chat_history \<Rightarrow> string list
       \<Rightarrow> chat_history \<times> string list \<times> ('e exn + unit)" where
  "chat_loop svc k cs h [] = (h, [], Inl EOFError)"
| "chat_loop svc k cs h (line # lines) =
     (let user_input = strip line in
      if lower user_input = ''exit'' then (h, [''bye''], Inr ())
      else if user_input = [] then chat_loop svc k cs h lines
      else
        (let h1 = add_user_message h user_input in
         case get_prompt_execution_settings_from_service_id k ''gemini'' of
           Inl e \<Rightarrow> (h1, [], Inl e)
         | Inr settings \<Rightarrow>
             (case svc cs h1 settings None of
                (tool_results, outcome) \<Rightarrow>
                  (let h2 = h1 @ map tool_result_turn tool_results in
                   case outcome of
                     Inl e \<Rightarrow> (h2, [], Inl (Uncaught e))
                   | Inr response \<Rightarrow>
                       (case chat_loop svc k cs
                               (add_assistant_message h2 (str_response response)) lines of
                          (h', printed, res) \<Rightarrow>
                            (h', (''Agent: '' @ str_response response) # printed, res))))))"

definition demo1_main ::
    "'e completion_service \<Rightarrow> string \<Rightarrow> string list
       \<Rightarrow> chat_history \<times> string list \<times> ('e exn + unit)" where
  "demo1_main svc gemini_api_key lines =
     (case kernel_add_service Kernel
             (GoogleAIChatCompletion ''gemini'' ''gemini-2.5-flash'' gemini_api_key) of
        Inl e \<Rightarrow> (ChatHistory, [], Inl e)
      | Inr k \<Rightarrow>
          (let h = add_system_message ChatHistory
                     ''You are Python developer and your name Alex, you will only answers queries python.'' in
           case kernel_get_service k ''gemini'' of
             Inl e \<Rightarrow> (h, [], Inl e)
           | Inr cs \<Rightarrow> chat_loop svc k cs h lines))"

section \<open>Auxiliary facts\<close>

subsection \<open>Strings\<close>

lemma startswith_append: "startswith (t @ b) t"
  by (induction t) auto

lemma startswith_contains: "startswith s sub \<Longrightarrow> contains sub s"
  by (cases s; cases sub) auto

lemma contains_append_left: "contains sub s \<Longrightarrow> contains sub (a @ s)"
  by (induction a) auto

lemma contains_middle: "contains t (a @ t @ b)"
  by (intro contains_append_left startswith_contains startswith_append)

lemma upper_char_newline: "c \<noteq> newline \<Longrightarrow> upper_char c \<noteq> newline"
  by (auto simp: upper_char_def newline_def ascii_lower_def ascii_upper_def
           split: option.splits if_splits)

lemma upper_no_newline:
  assumes "newline \<notin> set style"
  shows "newline \<notin> set (upper style)"
proof
  assume "newline \<in> set (upper style)"
  then obtain c where "c \<in> set style" "upper_char c = newline"
    by (auto simp: upper_def)
  with assms upper_char_newline [of c] show False by auto
qed

lemma takeWhile_line: "newline \<notin> set l \<Longrightarrow> takeWhile (\<lambda>c. c \<noteq> newline) (l @ newline # s) = l"
  by (induction l) auto

subsection \<open>Dictionaries\<close>

lemma map_of_dict_set_same: "map_of (dict_set d k v) k = Some v"
  by (induction d k v rule: dict_set.induct) auto

lemma map_of_dict_set_other: "k' \<noteq> k \<Longrightarrow> map_of (dict_set d k v) k' = map_of d k'"
  by (induction d k v rule: dict_set.induct) auto

lemma keys_dict_set: "set (map fst (dict_set d k v)) = insert k (set (map fst d))"
  by (induction d k v rule: dict_set.induct) auto

lemma dict_set_twice: "dict_set (dict_set d k v) k w = dict_set d k w"
  by (induction d k v rule: dict_set.induct) auto

lemma map_fst_dict_set_present:
  "k \<in> set (map fst d) \<Longrightarrow> map fst (dict_set d k v) = map fst d"
  by (induction d k v rule: dict_set.induct) auto

lemma dict_set_absent: "k \<notin> set (map fst d) \<Longrightarrow> dict_set d k v = d @ [(k, v)]"
  by (induction d k v rule: dict_set.induct) auto

lemma dict_set_present:
  "k \<in> set (map fst d) \<Longrightarrow>
   \<exists>i < length d. fst (d ! i) = k \<and> dict_set d k v = d[i := (k, v)]"
proof (induction d k v rule: dict_set.induct)
  case (1 k v)
  then show ?case by simp
next
  case (2 k' v' d k v)
  show ?case
  proof (cases "k' = k")
    case True
    then have "0 < length ((k', v') # d) \<and> fst (((k', v') # d) ! 0) = k \<and>
        dict_set ((k', v') # d) k v = ((k', v') # d)[0 := (k, v)]"
      by simp
    then show ?thesis by blast
  next
    case False
    with 2 obtain i where "i < length d" "fst (d ! i) = k" "dict_set d k v = d[i := (k, v)]"
      by auto
    with False have "Suc i < length ((k', v') # d) \<and> fst (((k', v') # d) ! Suc i) = k \<and>
        dict_set ((k', v') # d) k v = ((k', v') # d)[Suc i := (k, v)]"
      by simp
    then show ?thesis by blast
  qed
qed

lemma distinct_dict_set: "distinct (map fst d) \<Longrightarrow> distinct (map fst (dict_set d k v))"
proof (induction d k v rule: dict_set.induct)
  case (1 k v)
  then show ?case by simp
next
  case (2 k' v' d k v)
  have "set (map fst (dict_set d k v)) = insert k (set (map fst d))"
    by (rule keys_dict_set)
  with 2 show ?case by auto
qed

lemma distinct_count_one:
  "distinct xs \<Longrightarrow> x \<in> set xs \<Longrightarrow> length (filter (\<lambda>y. y = x) xs) = 1"
proof (induction xs)
  case Nil
  then show ?case by simp
next
  case (Cons y ys)
  show ?case
  proof (cases "y = x")
    case True
    with Cons.prems have "x \<notin> set ys" by simp
    then have "filter (\<lambda>y. y = x) ys = []" by (auto simp: filter_empty_conv)
    with True show ?thesis by simp
  next
    case False
    with Cons show ?thesis by simp
  qed
qed

subsection \<open>Agent\<close>

lemma filter_system_tool_results: "filter is_system (map tool_result_turn rs) = []"
  by (induction rs) (simp_all add: is_system_def tool_result_turn_def)

lemma filter_tool_results: "filter is_tool_result (map tool_result_turn rs) = map tool_result_turn rs"
  by (induction rs) (simp_all add: is_tool_result_def tool_result_turn_def)

lemma filter_system_exchange: "filter is_system (exchange m rs reply) = []"
  by (simp add: exchange_def filter_system_tool_results is_system_def)

lemma length_exchange: "length (exchange m rs reply) = 2 + length rs"
  by (simp add: exchange_def)

lemma process_initialized:
  assumes "service_id a = Some sid" and "chat_service a = Some cs"
    and "dict_get (services (kernel a)) sid = Some s"
    and "svc cs (chat_history a @ [\<lparr>turn_role = User, turn_content = m\<rparr>])
            \<lparr>es_service_id = sid, function_choice = Some Auto\<rparr> (Some (kernel a)) = (rs, outcome)"
  shows "process svc a m =
    (case outcome of
       Inl e \<Rightarrow> (a\<lparr>chat_history := chat_history a @ [\<lparr>turn_role = User, turn_content = m\<rparr>]
                       @ map tool_result_turn rs\<rparr>,
                 Inl (Uncaught e))
     | Inr response \<Rightarrow>
         (a\<lparr>chat_history := chat_history a @ exchange m rs (content response)\<rparr>,
          Inr (content response)))"
  using assms
  by (simp add: process_def Let_def add_user_message_def add_assistant_message_def
        get_prompt_execution_settings_from_service_id_def str_response_def exchange_def
      split: sum.splits)

lemma process_not_initialized:
  assumes "\<not> (\<exists>sid cs s. service_id a = Some sid \<and> chat_service a = Some cs
              \<and> dict_get (services (kernel a)) sid = Some s)"
  shows "\<exists>e. process svc a m =
           (a\<lparr>chat_history := chat_history a @ [\<lparr>turn_role = User, turn_content = m\<rparr>]\<rparr>, Inl e)"
proof (cases "service_id a")
  case None
  then show ?thesis by (simp add: process_def Let_def add_user_message_def)
next
  case (Some sid)
  show ?thesis
  proof (cases "dict_get (services (kernel a)) sid")
    case None
    with Some show ?thesis
      by (simp add: process_def Let_def add_user_message_def
            get_prompt_execution_settings_from_service_id_def)
  next
    case s: (Some s)
    with Some assms have "chat_service a = None" by (cases "chat_service a") auto
    with Some s show ?thesis
      by (simp add: process_def Let_def add_user_message_def
            get_prompt_execution_settings_from_service_id_def)
  qed
qed

lemma process_result:
  assumes pr: "process svc a m = (a', res)"
  shows "a' = a\<lparr>chat_history := chat_history a'\<rparr> \<and>
     (\<exists>rs. case res of
        Inl e \<Rightarrow> chat_history a' = chat_history a @ [\<lparr>turn_role = User, turn_content = m\<rparr>]
                   @ map tool_result_turn rs
      | Inr r \<Rightarrow> chat_history a' = chat_history a @ exchange m rs r)"
proof (cases "\<exists>sid cs s. service_id a = Some sid \<and> chat_service a = Some cs
              \<and> dict_get (services (kernel a)) sid = Some s")
  case False
  from process_not_initialized [OF False, of svc m] pr obtain e where
    a': "a' = a\<lparr>chat_history := chat_history a @ [\<lparr>turn_role = User, turn_content = m\<rparr>]\<rparr>"
    and res: "res = Inl e" by auto
  have "case res of
        Inl e \<Rightarrow> chat_history a' = chat_history a @ [\<lparr>turn_role = User, turn_content = m\<rparr>]
                   @ map tool_result_turn []
      | Inr r \<Rightarrow> chat_history a' = chat_history a @ exchange m [] r"
    by (simp add: a' res)
  then have "\<exists>rs. case res of
        Inl e \<Rightarrow> chat_history a' = chat_history a @ [\<lparr>turn_role = User, turn_content = m\<rparr>]
                   @ map tool_result_turn rs
      | Inr r \<Rightarrow> chat_history a' = chat_history a @ exchange m rs r" by (rule exI)
  moreover have "a' = a\<lparr>chat_history := chat_history a'\<rparr>" by (simp add: a')
  ultimately show ?thesis by (rule conjI [rotated])
next
  case True
  then obtain sid cs s where init: "service_id a = Some sid" "chat_service a = Some cs"
    "dict_get (services (kernel a)) sid = Some s" by blast
  obtain rs outcome where call:
    "svc cs (chat_history a @ [\<lparr>turn_role = User, turn_content = m\<rparr>])
        \<lparr>es_service_id = sid, function_choice = Some Auto\<rparr> (Some (kernel a)) = (rs, outcome)"
    by (cases "svc cs (chat_history a @ [\<lparr>turn_role = User, turn_content = m\<rparr>])
        \<lparr>es_service_id = sid, function_choice = Some Auto\<rparr> (Some (kernel a))")
  note unfolded = process_initialized [where svc = svc, OF init call]
  have "(case res of
        Inl e \<Rightarrow> chat_history a' = chat_history a @ [\<lparr>turn_role = User, turn_content = m\<rparr>]
                   @ map tool_result_turn rs
      | Inr r \<Rightarrow> chat_history a' = chat_history a @ exchange m rs r)
    \<and> a' = a\<lparr>chat_history := chat_history a'\<rparr>"
  proof (cases outcome)
    case (Inl e)
    with pr unfolded
    have "a' = a\<lparr>chat_history := chat_history a @ [\<lparr>turn_role = User, turn_content = m\<rparr>]
                       @ map tool_result_turn rs\<rparr>" "res = Inl (Uncaught e)"
      by simp_all
    then show ?thesis by simp
  next
    case (Inr response)
    with pr unfolded
    have "a' = a\<lparr>chat_history := chat_history a @ exchange m rs (content response)\<rparr>"
      "res = Inr (content response)"
      by simp_all
    then show ?thesis by simp
  qed
  then have hist: "case res of
        Inl e \<Rightarrow> chat_history a' = chat_history a @ [\<lparr>turn_role = User, turn_content = m\<rparr>]
                   @ map tool_result_turn rs
      | Inr r \<Rightarrow> chat_history a' = chat_history a @ exchange m rs r"
    and frame: "a' = a\<lparr>chat_history := chat_history a'\<rparr>"
    by blast+
  from hist have "\<exists>rs. case res of
        Inl e \<Rightarrow> chat_history a' = chat_history a @ [\<lparr>turn_role = User, turn_content = m\<rparr>]
                   @ map tool_result_turn rs
      | Inr r \<Rightarrow> chat_history a' = chat_history a @ exchange m rs r" by (rule exI)
  with frame show ?thesis by (rule conjI)
qed

lemma initialize_history:
  "initialize a key sid = (a', res) \<Longrightarrow>
     chat_history a' = chat_history a \<and> system_message a' = system_message a"
  by (auto simp: initialize_def Let_def split: sum.splits)

lemma add_plugin_history:
  "chat_history (add_plugin a p n) = chat_history a \<and>
   system_message (add_plugin a p n) = system_message a"
  by (simp add: add_plugin_def)

lemma step_history:
  assumes "step a x = (a', out)"
  shows "\<exists>ext. chat_history a' = chat_history a @ ext \<and> filter is_system ext = [] \<and>
           (if is_reply out then 2 else 0) \<le> length ext \<and>
           system_message a' = system_message a"
proof (cases x)
  case (Initialize key sid)
  with assms have "chat_history a' = chat_history a \<and> system_message a' = system_message a"
    by (auto split: prod.splits sum.splits dest: initialize_history)
  moreover from Initialize assms have "\<not> is_reply out"
    by (auto split: prod.splits sum.splits)
  ultimately show ?thesis by simp
next
  case (AddPlugin p n)
  with assms show ?thesis by (auto simp: add_plugin_history)
next
  case (Process svc m)
  obtain b res where pr: "process svc a m = (b, res)" by (cases "process svc a m")
  from process_result [OF pr] have b: "b = a\<lparr>chat_history := chat_history b\<rparr>" by simp
  then have sm: "system_message b = system_message a"
    by (metis agent.select_convs(3) agent.surjective agent.update_convs(5))
  show ?thesis
  proof (cases res)
    case (Inl e)
    with pr Process assms have "a' = b" "out = Raised e" by auto
    moreover from process_result [OF pr] Inl obtain rs where
      "chat_history b = chat_history a @ [\<lparr>turn_role = User, turn_content = m\<rparr>]
         @ map tool_result_turn rs" by auto
    moreover have "filter is_system ([\<lparr>turn_role = User, turn_content = m\<rparr>]
         @ map tool_result_turn rs) = []"
      by (simp add: is_system_def filter_system_tool_results)
    ultimately show ?thesis using sm by auto
  next
    case (Inr r)
    with pr Process assms have "a' = b" "out = Reply r" by auto
    moreover from process_result [OF pr] Inr obtain rs where
      "chat_history b = chat_history a @ exchange m rs r" by auto
    moreover have "filter is_system (exchange m rs r) = []" "2 \<le> length (exchange m rs r)"
      by (simp_all add: filter_system_exchange length_exchange)
    ultimately show ?thesis using sm by auto
  qed
qed

lemma run_history:
  "run a xs = (a', outs) \<Longrightarrow>
     \<exists>ext. chat_history a' = chat_history a @ ext \<and> filter is_system ext = [] \<and>
       2 * length (filter is_reply outs) \<le> length ext \<and>
       system_message a' = system_message a"
proof (induction xs arbitrary: a a' outs)
  case Nil
  then show ?case by simp
next
  case (Cons x xs)
  obtain b out where st: "step a x = (b, out)" by (cases "step a x")
  obtain c outs' where rn: "run b xs = (c, outs')" by (cases "run b xs")
  from Cons.prems st rn have eq: "a' = c" "outs = out # outs'" by auto
  from step_history [OF st] obtain e1 where e1:
    "chat_history b = chat_history a @ e1" "filter is_system e1 = []"
    "(if is_reply out then 2 else 0) \<le> length e1" "system_message b = system_message a"
    by blast
  from Cons.IH [OF rn] obtain e2 where e2:
    "chat_history c = chat_history b @ e2" "filter is_system e2 = []"
    "2 * length (filter is_reply outs') \<le> length e2" "system_message c = system_message b"
    by blast
  have "chat_history a' = chat_history a @ (e1 @ e2)" using e1 e2 eq by simp
  moreover have "filter is_system (e1 @ e2) = []" using e1 e2 by simp
  moreover have "2 * length (filter is_reply outs) \<le> length (e1 @ e2)"
    using e1(3) e2(3) eq by (auto split: if_splits)
  moreover have "system_message a' = system_message a" using e1 e2 eq by simp
  ultimately show ?case by blast
qed

lemma research_agent_eval:
  "research_agent key =
     \<lparr>name = ''ResearchAgent'', role = ''Research Specialist'',
      system_message = ''You are a research specialist. Your job is to gather and summarize information on various topics. Use the search_information tool when needed.'',
      kernel = \<lparr>plugins = [(''ResearchPlugin'', ResearchPlugin)],
                services = [(''gemini-chat'',
                   \<lparr>cc_service_id = ''gemini-chat'', cc_gemini_model_id = ''gemini-2.5-flash'',
                    cc_api_key = key\<rparr>)]\<rparr>,
      chat_history = [\<lparr>turn_role = System, turn_content = ''You are a research specialist. Your job is to gather and summarize information on various topics. Use the search_information tool when needed.''\<rparr>],
      service_id = Some ''gemini-chat'',
      chat_service = Some \<lparr>cc_service_id = ''gemini-chat'',
         cc_gemini_model_id = ''gemini-2.5-flash'', cc_api_key = key\<rparr>\<rparr>"
  by (simp add: research_agent_def initialize_def add_plugin_def Agent_def
        Kernel_def ChatHistory_def GoogleAIChatCompletion_def kernel_add_service_def
        kernel_get_service_def kernel_add_plugin_def dict_get_def add_system_message_def Let_def)

lemma writer_agent_eval:
  "writer_agent key =
     \<lparr>name = ''WriterAgent'', role = ''Content Writer'',
      system_message = ''You are a professional content writer. Your job is to create well-written content on various topics. Use the create_content tool when needed.'',
      kernel = \<lparr>plugins = [(''WritingPlugin'', WritingPlugin)],
                services = [(''gemini-chat'',
                   \<lparr>cc_service_id = ''gemini-chat'', cc_gemini_model_id = ''gemini-2.5-flash'',
                    cc_api_key = key\<rparr>)]\<rparr>,
      chat_history = [\<lparr>turn_role = System, turn_content = ''You are a professional content writer. Your job is to create well-written content on various topics. Use the create_content tool when needed.''\<rparr>],
      service_id = Some ''gemini-chat'',
      chat_service = Some \<lparr>cc_service_id = ''gemini-chat'',
         cc_gemini_model_id = ''gemini-2.5-flash'', cc_api_key = key\<rparr>\<rparr>"
  by (simp add: writer_agent_def initialize_def add_plugin_def Agent_def
        Kernel_def ChatHistory_def GoogleAIChatCompletion_def kernel_add_service_def
        kernel_get_service_def kernel_add_plugin_def dict_get_def add_system_message_def Let_def)

subsection \<open>Orchestrator\<close>

lemma agents_add_agent: "agents (add_agent orch a) = dict_set (agents orch) (name a) a"
  by (simp add: add_agent_def)

lemma names_dict_set:
  "map (\<lambda>e. name (snd e)) d = map fst d \<Longrightarrow>
   map (\<lambda>e. name (snd e)) (dict_set d (name a) a) = map fst (dict_set d (name a) a)"
  by (induction d "name a" a rule: dict_set.induct) auto

lemma orchestrator_invariant:
  "distinct (map fst (agents (foldl add_agent Orchestrator as))) \<and>
   map (\<lambda>e. name (snd e)) (agents (foldl add_agent Orchestrator as))
     = map fst (agents (foldl add_agent Orchestrator as)) \<and>
   set (map fst (agents (foldl add_agent Orchestrator as))) = set (map name as)"
proof (induction as rule: rev_induct)
  case Nil
  then show ?case by (simp add: Orchestrator_def)
next
  case (snoc a as)
  then show ?case
    by (simp add: agents_add_agent distinct_dict_set names_dict_set keys_dict_set
             del: set_map)
qed

subsection \<open>The chat session of \<^verbatim>\<open>demo-1\<close>\<close>

lemma chat_loop_history:
  "chat_loop svc k cs h lines = (h', printed, res) \<Longrightarrow>
     \<exists>exs rest. h' = h @ concat (map (\<lambda>(m, rs, reply). exchange m rs reply) exs) @ rest
       \<and> printed = map (\<lambda>(m, rs, reply). ''Agent: '' @ reply) exs
                     @ (if res = Inr () then [''bye''] else [])
       \<and> filter is_system rest = []
       \<and> (res = Inr () \<longrightarrow> rest = [])"
proof (induction svc k cs h lines arbitrary: h' printed res rule: chat_loop.induct)
  case (1 svc k cs h)
  then have "h' = h @ concat (map (\<lambda>(m, rs, reply). exchange m rs reply) []) @ []
       \<and> printed = map (\<lambda>(m, rs, reply). ''Agent: '' @ reply) []
                     @ (if res = Inr () then [''bye''] else [])
       \<and> filter is_system [] = [] \<and> (res = Inr () \<longrightarrow> [] = [])"
    by auto
  then show ?case by blast
next
  case (2 svc k cs h line lines)
  let ?u = "strip line"
  let ?h1 = "add_user_message h ?u"
  show ?case
  proof (cases "lower ?u = ''exit''")
    case True
    with "2.prems" have "h' = h" "printed = [''bye'']" "res = Inr ()" by (simp_all add: Let_def)
    then have "h' = h @ concat (map (\<lambda>(m, rs, reply). exchange m rs reply) []) @ []
       \<and> printed = map (\<lambda>(m, rs, reply). ''Agent: '' @ reply) []
                     @ (if res = Inr () then [''bye''] else [])
       \<and> filter is_system [] = [] \<and> (res = Inr () \<longrightarrow> [] = [])"
      by simp
    then show ?thesis by blast
  next
    case notexit: False
    show ?thesis
    proof (cases "?u = []")
      case True
      with notexit "2.prems" have "chat_loop svc k cs h lines = (h', printed, res)"
        by (simp add: Let_def)
      with "2.IH"(1) [OF refl notexit True] show ?thesis by blast
    next
      case nonempty: False
      show ?thesis
      proof (cases "get_prompt_execution_settings_from_service_id k ''gemini'' :: 'a exn + execution_settings")
        case (Inl e)
        with notexit nonempty "2.prems" have "h' = ?h1" "printed = []" "res = Inl e"
          by (simp_all add: Let_def)
        then have "h' = h @ concat (map (\<lambda>(m, rs, reply). exchange m rs reply) [])
              @ [\<lparr>turn_role = User, turn_content = ?u\<rparr>]
          \<and> printed = map (\<lambda>(m, rs, reply). ''Agent: '' @ reply) []
                     @ (if res = Inr () then [''bye''] else [])
          \<and> filter is_system [\<lparr>turn_role = User, turn_content = ?u\<rparr>] = []
          \<and> (res = Inr () \<longrightarrow> [\<lparr>turn_role = User, turn_content = ?u\<rparr>] = [])"
          by (simp add: add_user_message_def is_system_def)
        then show ?thesis by blast
      next
        case (Inr settings)
        obtain trs outcome where call: "svc cs ?h1 settings None = (trs, outcome)"
          by (cases "svc cs ?h1 settings None")
        let ?h2 = "?h1 @ map tool_result_turn trs"
        show ?thesis
        proof (cases outcome)
          case (Inl e)
          with call Inr notexit nonempty "2.prems"
          have "h' = ?h2" "printed = []" "res = Inl (Uncaught e)"
            by (simp_all add: Let_def)
          then have "h' = h @ concat (map (\<lambda>(m, rs, reply). exchange m rs reply) [])
                @ ([\<lparr>turn_role = User, turn_content = ?u\<rparr>] @ map tool_result_turn trs)
            \<and> printed = map (\<lambda>(m, rs, reply). ''Agent: '' @ reply) []
                     @ (if res = Inr () then [''bye''] else [])
            \<and> filter is_system ([\<lparr>turn_role = User, turn_content = ?u\<rparr>]
                  @ map tool_result_turn trs) = []
            \<and> (res = Inr () \<longrightarrow>
                  [\<lparr>turn_role = User, turn_content = ?u\<rparr>] @ map tool_result_turn trs = [])"
            by (simp add: add_user_message_def is_system_def filter_system_tool_results)
          then show ?thesis by blast
        next
          case svc_ok: (Inr response)
          let ?r = "str_response response"
          let ?h3 = "add_assistant_message ?h2 ?r"
          obtain h0 printed0 res0 where rec: "chat_loop svc k cs ?h3 lines = (h0, printed0, res0)"
            by (cases "chat_loop svc k cs ?h3 lines")
          with call svc_ok Inr notexit nonempty "2.prems"
          have eqs: "h' = h0" "printed = (''Agent: '' @ ?r) # printed0" "res = res0"
            by (simp_all add: Let_def)
          from "2.IH"(2) [OF refl notexit nonempty refl Inr call [symmetric] refl svc_ok rec]
          obtain exs rest where ih:
            "h0 = ?h3 @ concat (map (\<lambda>(m, rs, reply). exchange m rs reply) exs) @ rest"
            "printed0 = map (\<lambda>(m, rs, reply). ''Agent: '' @ reply) exs
                     @ (if res0 = Inr () then [''bye''] else [])"
            "filter is_system rest = []" "res0 = Inr () \<longrightarrow> rest = []"
            by blast
          have h3: "?h3 = h @ exchange ?u trs ?r"
            by (simp add: add_user_message_def add_assistant_message_def exchange_def)
          have "h' = h @ concat (map (\<lambda>(m, rs, reply). exchange m rs reply) ((?u, trs, ?r) # exs)) @ rest
            \<and> printed = map (\<lambda>(m, rs, reply). ''Agent: '' @ reply) ((?u, trs, ?r) # exs)
                     @ (if res = Inr () then [''bye''] else [])
            \<and> filter is_system rest = [] \<and> (res = Inr () \<longrightarrow> rest = [])"
            using eqs ih h3 by simp
          then show ?thesis by blast
        qed
      qed
    qed
  qed
qed

lemma demo1_main_chat_loop:
  "demo1_main svc key lines =
     chat_loop svc
       \<lparr>plugins = [], services = [(''gemini'', GoogleAIChatCompletion ''gemini'' ''gemini-2.5-flash'' key)]\<rparr>
       (GoogleAIChatCompletion ''gemini'' ''gemini-2.5-flash'' key)
       [\<lparr>turn_role = System, turn_content = ''You are Python developer and your name Alex, you will only answers queries python.''\<rparr>]
       lines"
  by (simp add: demo1_main_def kernel_add_service_def Kernel_def dict_get_def
        GoogleAIChatCompletion_def kernel_get_service_def ChatHistory_def
        add_system_message_def)

lemma filter_system_exchanges:
  "filter is_system (concat (map (\<lambda>(m, rs, reply). exchange m rs reply) exs)) = []"
  by (induction exs) (auto simp: filter_system_exchange)

lemma length_exchanges:
  "2 * length exs \<le> length (concat (map (\<lambda>(m, rs, reply). exchange m rs reply) exs))"
  by (induction exs) (auto simp: length_exchange)

lemma agent_lines:
  "length (filter (\<lambda>l. startswith l ''Agent: '')
     (map (\<lambda>(m, rs, reply). ''Agent: '' @ reply) exs @ (if b then [''bye''] else [])))
   = length exs"
proof -
  have "filter (\<lambda>l. startswith l ''Agent: '') (map (\<lambda>(m, rs, reply). ''Agent: '' @ reply) exs)
      = map (\<lambda>(m, rs, reply). ''Agent: '' @ reply) exs"
    by (induction exs) (auto simp: startswith_append)
  then show ?thesis by simp
qed

lemma demo1_main_history:
  "\<exists>rest. fst (demo1_main svc key lines) =
      \<lparr>turn_role = System, turn_content = ''You are Python developer and your name Alex, you will only answers queries python.''\<rparr> # rest
    \<and> filter is_system rest = []"
proof -
  let ?k = "\<lparr>plugins = [], services = [(''gemini'', GoogleAIChatCompletion ''gemini'' ''gemini-2.5-flash'' key)]\<rparr>"
  let ?cs = "GoogleAIChatCompletion ''gemini'' ''gemini-2.5-flash'' key"
  let ?h = "[\<lparr>turn_role = System, turn_content = ''You are Python developer and your name Alex, you will only answers queries python.''\<rparr>]"
  obtain h' printed res where cl: "chat_loop svc ?k ?cs ?h lines = (h', printed, res)"
    by (cases "chat_loop svc ?k ?cs ?h lines")
  from chat_loop_history [OF cl] obtain exs rest where
    "h' = ?h @ concat (map (\<lambda>(m, rs, reply). exchange m rs reply) exs) @ rest"
    "filter is_system rest = []"
    by blast
  then have "h' = \<lparr>turn_role = System, turn_content = ''You are Python developer and your name Alex, you will only answers queries python.''\<rparr>
      # (concat (map (\<lambda>(m, rs, reply). exchange m rs reply) exs) @ rest)
    \<and> filter is_system (concat (map (\<lambda>(m, rs, reply). exchange m rs reply) exs) @ rest) = []"
    by (simp add: filter_system_exchanges)
  with cl show ?thesis by (simp add: demo1_main_chat_loop)
qed

lemma demo1_main_growth:
  assumes "demo1_main svc key lines = (h', printed, res)"
  shows "1 + 2 * length (filter (\<lambda>l. startswith l ''Agent: '') printed) \<le> length h'"
proof -
  let ?k = "\<lparr>plugins = [], services = [(''gemini'', GoogleAIChatCompletion ''gemini'' ''gemini-2.5-flash'' key)]\<rparr>"
  let ?cs = "GoogleAIChatCompletion ''gemini'' ''gemini-2.5-flash'' key"
  let ?h = "[\<lparr>turn_role = System, turn_content = ''You are Python developer and your name Alex, you will only answers queries python.''\<rparr>]"
  from assms have cl: "chat_loop svc ?k ?cs ?h lines = (h', printed, res)"
    by (simp add: demo1_main_chat_loop)
  from chat_loop_history [OF cl] obtain exs rest where ex:
    "h' = ?h @ concat (map (\<lambda>(m, rs, reply). exchange m rs reply) exs) @ rest"
    "printed = map (\<lambda>(m, rs, reply). ''Agent: '' @ reply) exs
                     @ (if res = Inr () then [''bye''] else [])"
    by blast
  have "length (filter (\<lambda>l. startswith l ''Agent: '') printed) = length exs"
    unfolding ex(2) by (rule agent_lines)
  moreover have "1 + 2 * length exs \<le> length h'"
    using length_exchanges [of exs] unfolding ex(1) by simp
  ultimately show ?thesis by simp
qed

section \<open>Claims about the plugins\<close>

text \<open>
  C1 (as stated): \<^verbatim>\<open>search_information\<close> with the topic "python" returns the canned
  string for "python", and with the topic "blockchain" it returns the generic fallback
  string, which contains the topic name. The second half fails: the keys are looked for
  as substrings of the lowered topic, and "blockchain" contains the key "ai", so the
  canned string for "ai" is returned, which does not mention "blockchain".
\<close>

theorem search_information_blockchain_counterexample:
  "search_information ''blockchain'' \<noteq>
     ''Research on '' @ [quote] @ ''blockchain'' @ [quote]
       @ '': This is a complex topic that requires further investigation.''
   \<and> \<not> contains ''blockchain'' (search_information ''blockchain'')"
  by (simp add: search_information_def research_data_def lower_def lower_char_def
        ascii_upper_def ascii_lower_def quote_def)

text \<open>
  C1 (amended): with the topic "python" the result is the canned string for "python";
  with the topic "blockchain" it is the canned string for "ai"; and for every topic whose
  lowered form contains none of the keys "python", "ai" and "quantum computing" the
  result is the generic fallback string, which contains the topic.
\<close>

theorem search_information_canned_or_fallback:
  "search_information ''python'' =
     ''Python is a high-level, interpreted programming language known for its simplicity and readability. It was created by Guido van Rossum and first released in 1991.''
   \<and> search_information ''blockchain'' =
     ''Artificial Intelligence (AI) refers to the simulation of human intelligence in machines. It includes machine learning, natural language processing, and computer vision.''
   \<and> (\<not> contains ''python'' (lower topic) \<and> \<not> contains ''ai'' (lower topic)
        \<and> \<not> contains ''quantum computing'' (lower topic)
      \<longrightarrow> search_information topic =
            ''Research on '' @ [quote] @ topic @ [quote]
              @ '': This is a complex topic that requires further investigation.''
          \<and> contains topic (search_information topic))"
proof (intro conjI impI)
  show "search_information ''python'' =
     ''Python is a high-level, interpreted programming language known for its simplicity and readability. It was created by Guido van Rossum and first released in 1991.''"
    by (simp add: search_information_def research_data_def lower_def lower_char_def
          ascii_upper_def ascii_lower_def)
  show "search_information ''blockchain'' =
     ''Artificial Intelligence (AI) refers to the simulation of human intelligence in machines. It includes machine learning, natural language processing, and computer vision.''"
    by (simp add: search_information_def research_data_def lower_def lower_char_def
          ascii_upper_def ascii_lower_def)
next
  assume none: "\<not> contains ''python'' (lower topic) \<and> \<not> contains ''ai'' (lower topic)
        \<and> \<not> contains ''quantum computing'' (lower topic)"
  then have "first_match research_data (lower topic) = None"
    by (simp add: research_data_def)
  then show fb: "search_information topic =
            ''Research on '' @ [quote] @ topic @ [quote]
              @ '': This is a complex topic that requires further investigation.''"
    by (simp add: search_information_def)
  have "contains topic (''Research on '' @ [quote] @ topic @ ([quote]
              @ '': This is a complex topic that requires further investigation.''))"
    using contains_middle [of topic "''Research on '' @ [quote]"] by simp
  with fb show "contains topic (search_information topic)" by simp
qed

theorem search_information_canned_or_fallback_witness:
  "(\<not> contains ''python'' (lower ''Rust'') \<and> \<not> contains ''ai'' (lower ''Rust'')
        \<and> \<not> contains ''quantum computing'' (lower ''Rust''))
   \<and> search_information ''Rust'' =
        ''Research on '' @ [quote] @ ''Rust'' @ [quote]
          @ '': This is a complex topic that requires further investigation.''
   \<and> contains ''Rust'' (search_information ''Rust'')"
proof -
  have h: "\<not> contains ''python'' (lower ''Rust'') \<and> \<not> contains ''ai'' (lower ''Rust'')
        \<and> \<not> contains ''quantum computing'' (lower ''Rust'')"
    by (simp add: lower_def lower_char_def ascii_upper_def ascii_lower_def)
  with search_information_canned_or_fallback [of "''Rust''"] show ?thesis by blast
qed

text \<open>
  C8 (as stated): \<^verbatim>\<open>create_content\<close> with topic "AI" and style "casual" returns a string
  whose first line is the style rendered uppercase in brackets, that is \<open>[CASUAL]\<close>, and
  which contains "AI". The first line is \<open>[CASUAL CONTENT]\<close>: the template puts the word
  CONTENT after the style, inside the brackets.
\<close>

theorem create_content_first_line_counterexample:
  "first_line (create_content ''AI'' ''casual'') \<noteq> ''['' @ upper ''casual'' @ '']''"
  by (simp add: create_content_def first_line_def newline_def upper_def upper_char_def
        ascii_upper_def ascii_lower_def)

text \<open>
  C8 (amended): \<^verbatim>\<open>create_content\<close> with topic "AI" and style "casual" returns a string
  whose first line is \<open>[CASUAL CONTENT]\<close>, the style rendered uppercase and followed by the
  word CONTENT, in brackets, and which contains "AI". The same holds for every topic and
  every style without a line break.
\<close>

theorem create_content_first_line:
  "first_line (create_content ''AI'' ''casual'') = ''[CASUAL CONTENT]''
   \<and> contains ''AI'' (create_content ''AI'' ''casual'')
   \<and> (newline \<notin> set style \<longrightarrow>
        first_line (create_content topic style) = ''['' @ upper style @ '' CONTENT]''
        \<and> contains topic (create_content topic style))"
proof (intro conjI impI)
  show "first_line (create_content ''AI'' ''casual'') = ''[CASUAL CONTENT]''"
    by (simp add: create_content_def first_line_def newline_def upper_def upper_char_def
          ascii_upper_def ascii_lower_def)
  show "contains ''AI'' (create_content ''AI'' ''casual'')"
    by (simp add: create_content_def newline_def upper_def upper_char_def
          ascii_upper_def ascii_lower_def)
next
  assume "newline \<notin> set style"
  then have "newline \<notin> set (''['' @ upper style @ '' CONTENT]'')"
    using upper_no_newline [of style] by (simp add: newline_def)
  from takeWhile_line [OF this]
  show "first_line (create_content topic style) = ''['' @ upper style @ '' CONTENT]''"
    by (simp add: create_content_def first_line_def)
next
  show "contains topic (create_content topic style)"
    using contains_middle [of topic "''['' @ upper style @ '' CONTENT]'' @ [newline, newline]"]
    by (simp add: create_content_def)
qed

theorem create_content_first_line_witness:
  "newline \<notin> set ''formal''
   \<and> first_line (create_content ''Rust'' ''formal'') = ''[FORMAL CONTENT]''
   \<and> contains ''Rust'' (create_content ''Rust'' ''formal'')"
proof -
  have h: "newline \<notin> set ''formal''" by (simp add: newline_def)
  have u: "upper ''formal'' = ''FORMAL''"
    by (simp add: upper_def upper_char_def ascii_upper_def ascii_lower_def)
  from h u create_content_first_line [of "''formal''" "''Rust''"] show ?thesis by simp
qed

section \<open>Claims about the Agent\<close>

text \<open>
  C2 (as stated): when the Completion Service keeps requesting tool invocations during one
  \<^verbatim>\<open>process\<close> call, the tool loop is bounded by an iteration cap, and exceeding the cap
  makes \<^verbatim>\<open>process\<close> raise ToolLoopExceededError, the Conversation keeping every ToolResult
  turn appended up to the cap. \<^verbatim>\<open>process\<close> counts nothing and has no cap: with a service
  that invokes a tool eleven times within the call, more than the five to ten rounds the
  cap is meant to allow, and then still requests a tool, \<^verbatim>\<open>process\<close> returns normally.
\<close>

theorem process_tool_loop_counterexample:
  "snd (process (always_requests_tool 11) (research_agent ''key'') ''What is Python?'') = Inr []
   \<and> length (filter is_tool_result
        (chat_history (fst (process (always_requests_tool 11) (research_agent ''key'')
           ''What is Python?'')))) = 11"
  by (simp add: process_def research_agent_eval dict_get_def
        get_prompt_execution_settings_from_service_id_def always_requests_tool_def
        add_user_message_def add_assistant_message_def
        str_response_def is_tool_result_def tool_result_turn_def filter_replicate Let_def)

text \<open>
  C2 (amended): \<^verbatim>\<open>process\<close> has no iteration cap and raises no ToolLoopExceededError. On an
  initialized Agent it makes one call of the Completion Service, inside which the tool
  invocations happen, however many they are. When the call returns a response, also one
  that still requests tools, \<^verbatim>\<open>process\<close> appends an Assistant turn with the text of the
  response and returns that text; when the call raises, \<^verbatim>\<open>process\<close> raises the same
  exception. In both cases the Conversation holds, after the User turn, every ToolResult
  turn that was appended during the call.
\<close>

theorem process_no_iteration_cap:
  "service_id a = Some sid \<and> chat_service a = Some cs
      \<and> dict_get (services (kernel a)) sid = Some s
      \<and> svc cs (chat_history a @ [\<lparr>turn_role = User, turn_content = m\<rparr>])
            \<lparr>es_service_id = sid, function_choice = Some Auto\<rparr> (Some (kernel a))
          = (rs, outcome)
    \<longrightarrow> process svc a m =
          (a\<lparr>chat_history := chat_history a @ [\<lparr>turn_role = User, turn_content = m\<rparr>]
               @ map tool_result_turn rs
               @ (case outcome of
                    Inl e \<Rightarrow> []
                  | Inr response \<Rightarrow> [\<lparr>turn_role = Assistant, turn_content = content response\<rparr>])\<rparr>,
           (case outcome of
              Inl e \<Rightarrow> Inl (Uncaught e)
            | Inr response \<Rightarrow> Inr (content response)))"
proof
  assume h: "service_id a = Some sid \<and> chat_service a = Some cs
      \<and> dict_get (services (kernel a)) sid = Some s
      \<and> svc cs (chat_history a @ [\<lparr>turn_role = User, turn_content = m\<rparr>])
            \<lparr>es_service_id = sid, function_choice = Some Auto\<rparr> (Some (kernel a))
          = (rs, outcome)"
  then have "process svc a m =
    (case outcome of
       Inl e \<Rightarrow> (a\<lparr>chat_history := chat_history a @ [\<lparr>turn_role = User, turn_content = m\<rparr>]
                       @ map tool_result_turn rs\<rparr>,
                 Inl (Uncaught e))
     | Inr response \<Rightarrow>
         (a\<lparr>chat_history := chat_history a @ exchange m rs (content response)\<rparr>,
          Inr (content response)))"
    using process_initialized [where svc = svc and a = a and m = m and rs = rs
        and outcome = outcome and sid = sid and cs = cs and s = s]
    by blast
  then show "process svc a m =
          (a\<lparr>chat_history := chat_history a @ [\<lparr>turn_role = User, turn_content = m\<rparr>]
               @ map tool_result_turn rs
               @ (case outcome of
                    Inl e \<Rightarrow> []
                  | Inr response \<Rightarrow> [\<lparr>turn_role = Assistant, turn_content = content response\<rparr>])\<rparr>,
           (case outcome of
              Inl e \<Rightarrow> Inl (Uncaught e)
            | Inr response \<Rightarrow> Inr (content response)))"
    by (cases outcome) (simp_all add: exchange_def)
qed

theorem process_no_iteration_cap_witness:
  "service_id (research_agent ''key'') = Some ''gemini-chat''
   \<and> chat_service (research_agent ''key'')
        = Some (GoogleAIChatCompletion ''gemini-chat'' ''gemini-2.5-flash'' ''key'')
   \<and> dict_get (services (kernel (research_agent ''key''))) ''gemini-chat''
        = Some (GoogleAIChatCompletion ''gemini-chat'' ''gemini-2.5-flash'' ''key'')
   \<and> always_requests_tool 2
        (GoogleAIChatCompletion ''gemini-chat'' ''gemini-2.5-flash'' ''key'')
        (chat_history (research_agent ''key'') @ [\<lparr>turn_role = User, turn_content = ''hello''\<rparr>])
        \<lparr>es_service_id = ''gemini-chat'', function_choice = Some Auto\<rparr>
        (Some (kernel (research_agent ''key'')))
       = ([search_information ''python'', search_information ''python''],
          Inr \<lparr>content = [], tool_calls = [\<lparr>tool_name = ''search_information'',
                         arguments = [(''topic'', ''python'')]\<rparr>]\<rparr>)
   \<and> process (always_requests_tool 2) (research_agent ''key'') ''hello'' =
       ((research_agent ''key'')\<lparr>chat_history := chat_history (research_agent ''key'') @
            [\<lparr>turn_role = User, turn_content = ''hello''\<rparr>,
             tool_result_turn (search_information ''python''),
             tool_result_turn (search_information ''python''),
             \<lparr>turn_role = Assistant, turn_content = []\<rparr>]\<rparr>,
        Inr [])"
proof -
  let ?a = "research_agent ''key''"
  let ?cs = "GoogleAIChatCompletion ''gemini-chat'' ''gemini-2.5-flash'' ''key''"
  let ?r = "\<lparr>content = [], tool_calls = [\<lparr>tool_name = ''search_information'',
                         arguments = [(''topic'', ''python'')]\<rparr>]\<rparr>"
  let ?rs = "[search_information ''python'', search_information ''python'']"
  have h1: "service_id ?a = Some ''gemini-chat''" by (simp add: research_agent_eval)
  have h2: "chat_service ?a = Some ?cs"
    by (simp add: research_agent_eval GoogleAIChatCompletion_def)
  have h3: "dict_get (services (kernel ?a)) ''gemini-chat'' = Some ?cs"
    by (simp add: research_agent_eval GoogleAIChatCompletion_def dict_get_def)
  have h4: "always_requests_tool 2 ?cs
            (chat_history ?a @ [\<lparr>turn_role = User, turn_content = ''hello''\<rparr>])
            \<lparr>es_service_id = ''gemini-chat'', function_choice = Some Auto\<rparr> (Some (kernel ?a))
          = (?rs, Inr ?r)"
    by (simp add: always_requests_tool_def numeral_2_eq_2)
  from h1 h2 h3 h4
    process_no_iteration_cap [where a = ?a and sid = "''gemini-chat''" and cs = ?cs and s = ?cs
      and svc = "always_requests_tool 2" and m = "''hello''" and rs = ?rs and outcome = "Inr ?r"]
  have "process (always_requests_tool 2) ?a ''hello'' =
          (?a\<lparr>chat_history := chat_history ?a @ [\<lparr>turn_role = User, turn_content = ''hello''\<rparr>]
               @ map tool_result_turn ?rs
               @ (case (Inr ?r :: unit + response) of
                    Inl e \<Rightarrow> []
                  | Inr response \<Rightarrow> [\<lparr>turn_role = Assistant, turn_content = content response\<rparr>])\<rparr>,
           (case (Inr ?r :: unit + response) of
              Inl e \<Rightarrow> Inl (Uncaught e)
            | Inr response \<Rightarrow> Inr (content response)))"
    by blast
  then have "process (always_requests_tool 2) ?a ''hello'' =
       (?a\<lparr>chat_history := chat_history ?a @
            [\<lparr>turn_role = User, turn_content = ''hello''\<rparr>,
             tool_result_turn (search_information ''python''),
             tool_result_turn (search_information ''python''),
             \<lparr>turn_role = Assistant, turn_content = []\<rparr>]\<rparr>,
        Inr [])"
    by simp
  with h1 h2 h3 h4 show ?thesis by blast
qed

text \<open>
  C3 (as stated): registering a tool under a name that already exists in the same Agent's
  registry fails with DuplicateToolError, while registering the same name on two
  different Agents succeeds independently. \<^verbatim>\<open>add_plugin\<close> makes no check and hands the
  plugin to the kernel, which stores it under the name: the second registration returns
  normally and replaces the first plugin.
\<close>

theorem add_plugin_duplicate_counterexample:
  "step (research_agent ''key'') (AddPlugin WritingPlugin ''ResearchPlugin'')
     = ((research_agent ''key'')
          \<lparr>kernel := (kernel (research_agent ''key''))
             \<lparr>plugins := [(''ResearchPlugin'', WritingPlugin)]\<rparr>\<rparr>,
        (Done :: unit outcome))"
  by (simp add: research_agent_eval add_plugin_def kernel_add_plugin_def)

text \<open>
  C3 (amended): registering a plugin under a name that already exists in the same Agent's
  kernel does not fail: the call returns normally, the new plugin replaces the old one
  under that name and the names registered and their order stay as they were.
  Registering the same name on two different Agents succeeds independently: each Agent
  then holds its own plugin under the name.
\<close>

theorem add_plugin_last_wins:
  "step (add_plugin a p n) (AddPlugin q n) = (add_plugin (add_plugin a p n) q n, Done)
   \<and> dict_get (plugins (kernel (add_plugin (add_plugin a p n) q n))) n = Some q
   \<and> map fst (plugins (kernel (add_plugin (add_plugin a p n) q n)))
       = map fst (plugins (kernel (add_plugin a p n)))
   \<and> dict_get (plugins (kernel (add_plugin a p n))) n = Some p
   \<and> dict_get (plugins (kernel (add_plugin b q n))) n = Some q"
proof -
  have "n \<in> set (map fst (dict_set (plugins (kernel a)) n p))"
    unfolding keys_dict_set by simp
  then have "map fst (dict_set (dict_set (plugins (kernel a)) n p) n q)
      = map fst (dict_set (plugins (kernel a)) n p)"
    by (rule map_fst_dict_set_present)
  then show ?thesis
    by (simp add: add_plugin_def kernel_add_plugin_def dict_get_def map_of_dict_set_same)
qed

text \<open>
  C4: after a session with N successful \<^verbatim>\<open>process\<close> calls the Conversation of an Agent
  has at least 1 + 2N turns, the leading System turn and at least a User and an Assistant
  turn per call; a successful call extends the Conversation by exactly one User turn,
  then the ToolResult turns of the tools invoked during the call (there may be none),
  then one Assistant turn, so a sequence of successful calls extends the Conversation by
  these turns call after call, in order. The same holds for the loop of \<^verbatim>\<open>demo-1\<close>: its
  Conversation has at least 1 + 2N turns after N answers were printed, and when the loop
  ends at "exit" the turns after the System turn are the round trips of the answers
  printed, in order.
\<close>

theorem process_conversation_growth:
  "(run (Agent n r sm) ops = (a, outs) \<longrightarrow>
      1 + 2 * length (filter is_reply outs) \<le> length (chat_history a))
   \<and> (process svc b m = (b', Inr reply) \<longrightarrow>
        (\<exists>rs. chat_history b' = chat_history b @ exchange m rs reply))
   \<and> (run b0 (map (\<lambda>(svc, m). Process svc m) calls) = (c, map Reply replies) \<longrightarrow>
        (\<exists>rss. length rss = length calls \<and>
           chat_history c = chat_history b0 @
             concat (map (\<lambda>((svc, m), rs, reply). exchange m rs reply)
                       (zip calls (zip rss replies)))))
   \<and> (demo1_main svc1 key lines1 = (h1, printed1, res1) \<longrightarrow>
        1 + 2 * length (filter (\<lambda>l. startswith l ''Agent: '') printed1) \<le> length h1)
   \<and> (chat_loop svc2 k cs h lines2 = (h2, printed2, Inr ()) \<longrightarrow>
        (\<exists>exs. printed2 = map (\<lambda>(m, rs, reply). ''Agent: '' @ reply) exs @ [''bye''] \<and>
           h2 = h @ concat (map (\<lambda>(m, rs, reply). exchange m rs reply) exs)))"
proof (intro conjI impI)
  assume "run (Agent n r sm) ops = (a, outs)"
  from run_history [OF this] obtain ext where
    "chat_history a = chat_history (Agent n r sm) @ ext"
    "2 * length (filter is_reply outs) \<le> length ext" by blast
  then show "1 + 2 * length (filter is_reply outs) \<le> length (chat_history a)"
    by (simp add: Agent_def add_system_message_def ChatHistory_def)
next
  assume "process svc b m = (b', Inr reply)"
  from process_result [OF this]
  show "\<exists>rs. chat_history b' = chat_history b @ exchange m rs reply"
    by simp
next
  assume "run b0 (map (\<lambda>(svc, m). Process svc m) calls) = (c, map Reply replies)"
  then show "\<exists>rss. length rss = length calls \<and>
           chat_history c = chat_history b0 @
             concat (map (\<lambda>((svc, m), rs, reply). exchange m rs reply)
                       (zip calls (zip rss replies)))"
  proof (induction calls arbitrary: b0 replies)
    case Nil
    then have "chat_history c = chat_history b0" by simp
    then show ?case by (intro exI [of _ "[]"]) simp
  next
    case (Cons x calls)
    obtain svc' m' where x: "x = (svc', m')" by (cases x)
    obtain b1 res where pr: "process svc' b0 m' = (b1, res)" by (cases "process svc' b0 m'")
    obtain c1 outs1 where rn: "run b1 (map (\<lambda>(svc, m). Process svc m) calls) = (c1, outs1)"
      by (cases "run b1 (map (\<lambda>(svc, m). Process svc m) calls)")
    from Cons.prems x pr rn obtain r1 rest where
      res: "res = Inr r1" and reps: "replies = r1 # rest" and outs1: "outs1 = map Reply rest"
      and c: "c = c1"
      by (cases res; cases replies) auto
    from process_result [OF pr] res obtain rs1 where
      h1: "chat_history b1 = chat_history b0 @ exchange m' rs1 r1"
      by auto
    from Cons.IH [of b1 rest] rn outs1 c obtain rss where
      len: "length rss = length calls" and
      h2: "chat_history c = chat_history b1 @
          concat (map (\<lambda>((svc, m), rs, reply). exchange m rs reply)
                       (zip calls (zip rss rest)))"
      by auto
    have "length (rs1 # rss) = length (x # calls) \<and>
        chat_history c = chat_history b0 @
          concat (map (\<lambda>((svc, m), rs, reply). exchange m rs reply)
                       (zip (x # calls) (zip (rs1 # rss) replies)))"
      using len h1 h2 x reps by simp
    then show ?case by blast
  qed
next
  assume "demo1_main svc1 key lines1 = (h1, printed1, res1)"
  then show "1 + 2 * length (filter (\<lambda>l. startswith l ''Agent: '') printed1) \<le> length h1"
    by (rule demo1_main_growth)
next
  assume "chat_loop svc2 k cs h lines2 = (h2, printed2, Inr ())"
  from chat_loop_history [OF this]
  show "\<exists>exs. printed2 = map (\<lambda>(m, rs, reply). ''Agent: '' @ reply) exs @ [''bye''] \<and>
           h2 = h @ concat (map (\<lambda>(m, rs, reply). exchange m rs reply) exs)"
    by auto
qed

theorem process_conversation_growth_witness:
  "run (Agent ''A'' ''helper'' ''Be brief.'')
       [Process (answers ''early'') ''ping'', Initialize ''key'' ''gemini-chat'',
        Process (answers ''4'') ''2+2?'', Process unreachable ''again'',
        Process (always_requests_tool 1) ''search'']
     = (fst (run (Agent ''A'' ''helper'' ''Be brief.'')
       [Process (answers ''early'') ''ping'', Initialize ''key'' ''gemini-chat'',
        Process (answers ''4'') ''2+2?'', Process unreachable ''again'',
        Process (always_requests_tool 1) ''search'']),
        [Raised (AttributeError ''service_id''), Done, Reply ''4'',
         Raised (Uncaught ()), Reply []])
   \<and> 1 + 2 * length (filter is_reply
        [Raised (AttributeError ''service_id''), Done, Reply ''4'',
         Raised (Uncaught ()), Reply []])
      \<le> length (chat_history (fst (run (Agent ''A'' ''helper'' ''Be brief.'')
       [Process (answers ''early'') ''ping'', Initialize ''key'' ''gemini-chat'',
        Process (answers ''4'') ''2+2?'', Process unreachable ''again'',
        Process (always_requests_tool 1) ''search''])))
   \<and> process (always_requests_tool 1) (research_agent ''key'') ''hello'' =
       (fst (process (always_requests_tool 1) (research_agent ''key'') ''hello''), Inr [])
   \<and> (\<exists>rs. chat_history (fst (process (always_requests_tool 1) (research_agent ''key'') ''hello''))
       = chat_history (research_agent ''key'') @ exchange ''hello'' rs [])
   \<and> run (research_agent ''key'')
        (map (\<lambda>(svc, m). Process svc m)
           [(answers ''hi'', ''hello''), (always_requests_tool 1, ''more'')])
       = (fst (run (research_agent ''key'')
            (map (\<lambda>(svc, m). Process svc m)
               [(answers ''hi'', ''hello''), (always_requests_tool 1, ''more'')])),
          map Reply [''hi'', []])
   \<and> (\<exists>rss. length rss = length [(answers ''hi'', ''hello''), (always_requests_tool 1, ''more'')]
        \<and> chat_history (fst (run (research_agent ''key'')
            (map (\<lambda>(svc, m). Process svc m)
               [(answers ''hi'', ''hello''), (always_requests_tool 1, ''more'')])))
          = chat_history (research_agent ''key'') @
             concat (map (\<lambda>((svc, m), rs, reply). exchange m rs reply)
               (zip [(answers ''hi'', ''hello''), (always_requests_tool 1, ''more'')]
                  (zip rss [''hi'', []]))))
   \<and> demo1_main (answers ''ok'') ''key'' ['' Hi '', ''more'']
       = (fst (demo1_main (answers ''ok'') ''key'' ['' Hi '', ''more'']),
          [''Agent: ok'', ''Agent: ok''], Inl EOFError)
   \<and> 1 + 2 * length (filter (\<lambda>l. startswith l ''Agent: '') [''Agent: ok'', ''Agent: ok''])
       \<le> length (fst (demo1_main (answers ''ok'') ''key'' ['' Hi '', ''more'']))
   \<and> chat_loop (answers ''ok'')
         \<lparr>plugins = [], services = [(''gemini'', GoogleAIChatCompletion ''gemini'' ''gemini-2.5-flash'' ''key'')]\<rparr>
         (GoogleAIChatCompletion ''gemini'' ''gemini-2.5-flash'' ''key'') [] ['' Hi '', ''Exit'']
       = (fst (chat_loop (answers ''ok'')
         \<lparr>plugins = [], services = [(''gemini'', GoogleAIChatCompletion ''gemini'' ''gemini-2.5-flash'' ''key'')]\<rparr>
         (GoogleAIChatCompletion ''gemini'' ''gemini-2.5-flash'' ''key'') [] ['' Hi '', ''Exit'']),
          [''Agent: ok'', ''bye''], Inr ())
   \<and> (\<exists>exs. [''Agent: ok'', ''bye''] = map (\<lambda>(m, rs, reply). ''Agent: '' @ reply) exs @ [''bye'']
        \<and> fst (chat_loop (answers ''ok'')
         \<lparr>plugins = [], services = [(''gemini'', GoogleAIChatCompletion ''gemini'' ''gemini-2.5-flash'' ''key'')]\<rparr>
         (GoogleAIChatCompletion ''gemini'' ''gemini-2.5-flash'' ''key'') [] ['' Hi '', ''Exit''])
          = [] @ concat (map (\<lambda>(m, rs, reply). exchange m rs reply) exs))"
proof -
  let ?ops = "[Process (answers ''early'') ''ping'', Initialize ''key'' ''gemini-chat'',
        Process (answers ''4'') ''2+2?'', Process unreachable ''again'',
        Process (always_requests_tool 1) ''search'']"
  let ?a0 = "Agent ''A'' ''helper'' ''Be brief.''"
  let ?outs = "[Raised (AttributeError ''service_id''), Done, Reply ''4'',
         Raised (Uncaught ()), Reply []]"
  let ?k1 = "\<lparr>plugins = [], services = [(''gemini'', GoogleAIChatCompletion ''gemini'' ''gemini-2.5-flash'' ''key'')]\<rparr>"
  let ?cs1 = "GoogleAIChatCompletion ''gemini'' ''gemini-2.5-flash'' ''key''"
  let ?calls = "[(answers ''hi'', ''hello''), (always_requests_tool 1, ''more'')]"
  have "snd (run ?a0 ?ops) = ?outs"
    by (simp add: process_def initialize_def Agent_def
        Kernel_def ChatHistory_def GoogleAIChatCompletion_def kernel_add_service_def
        kernel_get_service_def dict_get_def
        get_prompt_execution_settings_from_service_id_def always_requests_tool_def
        answers_def unreachable_def
        add_system_message_def add_user_message_def add_assistant_message_def
        str_response_def Let_def)
  then have r: "run ?a0 ?ops = (fst (run ?a0 ?ops), ?outs)"
    by (metis prod.collapse)
  have "snd (process (always_requests_tool 1) (research_agent ''key'') ''hello'') = Inr []"
    by (simp add: research_agent_eval process_def dict_get_def
        get_prompt_execution_settings_from_service_id_def always_requests_tool_def
        add_user_message_def add_assistant_message_def str_response_def Let_def)
  then have p: "process (always_requests_tool 1) (research_agent ''key'') ''hello'' =
       (fst (process (always_requests_tool 1) (research_agent ''key'') ''hello''), Inr [])"
    by (metis prod.collapse)
  have "snd (run (research_agent ''key'') (map (\<lambda>(svc, m). Process svc m) ?calls))
      = map Reply [''hi'', []]"
    by (simp add: research_agent_eval process_def dict_get_def
        get_prompt_execution_settings_from_service_id_def answers_def always_requests_tool_def
        add_user_message_def add_assistant_message_def str_response_def Let_def)
  then have q: "run (research_agent ''key'') (map (\<lambda>(svc, m). Process svc m) ?calls)
      = (fst (run (research_agent ''key'') (map (\<lambda>(svc, m). Process svc m) ?calls)),
         map Reply [''hi'', []])"
    by (metis prod.collapse)
  have "snd (chat_loop (answers ''ok'') ?k1 ?cs1 [] ['' Hi '', ''Exit''])
      = ([''Agent: ok'', ''bye''], Inr ())"
    by (simp add: strip_def whitespace_def lower_def lower_char_def ascii_upper_def
        ascii_lower_def get_prompt_execution_settings_from_service_id_def dict_get_def
        answers_def add_user_message_def add_assistant_message_def str_response_def Let_def)
  then have l: "chat_loop (answers ''ok'') ?k1 ?cs1 [] ['' Hi '', ''Exit'']
      = (fst (chat_loop (answers ''ok'') ?k1 ?cs1 [] ['' Hi '', ''Exit'']),
         [''Agent: ok'', ''bye''], Inr ())"
    by (metis prod.collapse)
  have "snd (demo1_main (answers ''ok'') ''key'' ['' Hi '', ''more''])
      = ([''Agent: ok'', ''Agent: ok''], Inl EOFError)"
    by (simp add: demo1_main_chat_loop strip_def whitespace_def lower_def lower_char_def
        ascii_upper_def ascii_lower_def get_prompt_execution_settings_from_service_id_def
        dict_get_def answers_def add_user_message_def add_assistant_message_def
        str_response_def Let_def)
  then have d: "demo1_main (answers ''ok'') ''key'' ['' Hi '', ''more'']
       = (fst (demo1_main (answers ''ok'') ''key'' ['' Hi '', ''more'']),
          [''Agent: ok'', ''Agent: ok''], Inl EOFError)"
    by (metis prod.collapse)
  from r p q l d process_conversation_growth [where n = "''A''" and r = "''helper''"
      and sm = "''Be brief.''" and ops = ?ops and a = "fst (run ?a0 ?ops)" and outs = ?outs
      and svc = "always_requests_tool 1" and b = "research_agent ''key''" and m = "''hello''"
      and b' = "fst (process (always_requests_tool 1) (research_agent ''key'') ''hello'')"
      and reply = "[]" and ?b0.0 = "research_agent ''key''"
      and calls = ?calls and replies = "[''hi'', []]"
      and c = "fst (run (research_agent ''key'') (map (\<lambda>(svc, m). Process svc m) ?calls))"
      and ?svc1.0 = "answers ''ok''" and key = "''key''" and ?lines1.0 = "['' Hi '', ''more'']"
      and ?h1.0 = "fst (demo1_main (answers ''ok'') ''key'' ['' Hi '', ''more''])"
      and ?printed1.0 = "[''Agent: ok'', ''Agent: ok'']" and ?res1.0 = "Inl EOFError"
      and ?svc2.0 = "answers ''ok''" and k = ?k1 and cs = ?cs1 and h = "[]"
      and ?lines2.0 = "['' Hi '', ''Exit'']"
      and ?h2.0 = "fst (chat_loop (answers ''ok'') ?k1 ?cs1 [] ['' Hi '', ''Exit''])"
      and ?printed2.0 = "[''Agent: ok'', ''bye'']"]
  show ?thesis by blast
qed

text \<open>
  C5: in every state an Agent reaches, the Conversation starts with the System turn that
  the constructor inserted, holding the system message given there, and has no other
  System turn; no call of \<^verbatim>\<open>process\<close>, \<^verbatim>\<open>add_plugin\<close> or \<^verbatim>\<open>initialize\<close> changes or removes it.
  The Conversation of \<^verbatim>\<open>demo-1\<close> starts with its System turn and has no other one as well.
\<close>

theorem system_turn_invariant:
  "chat_history (Agent n r sm) = [\<lparr>turn_role = System, turn_content = sm\<rparr>]
   \<and> (\<exists>rest. chat_history (fst (run (Agent n r sm) ops))
          = \<lparr>turn_role = System, turn_content = sm\<rparr> # rest
        \<and> filter is_system rest = [])
   \<and> length (filter is_system (chat_history (fst (run (Agent n r sm) ops)))) = 1
   \<and> system_message (fst (run (Agent n r sm) ops)) = sm
   \<and> (\<exists>ext. chat_history (fst (step a x)) = chat_history a @ ext \<and> filter is_system ext = [])
   \<and> (\<exists>rest. fst (demo1_main svc key lines) =
          \<lparr>turn_role = System, turn_content = ''You are Python developer and your name Alex, you will only answers queries python.''\<rparr> # rest
        \<and> filter is_system rest = [])"
proof -
  have init: "chat_history (Agent n r sm) = [\<lparr>turn_role = System, turn_content = sm\<rparr>]"
    by (simp add: Agent_def add_system_message_def ChatHistory_def)
  obtain a' outs where rn: "run (Agent n r sm) ops = (a', outs)"
    by (cases "run (Agent n r sm) ops")
  from run_history [OF rn] obtain ext where ext:
    "chat_history a' = chat_history (Agent n r sm) @ ext" "filter is_system ext = []"
    "system_message a' = system_message (Agent n r sm)" by blast
  have h: "chat_history (fst (run (Agent n r sm) ops))
      = \<lparr>turn_role = System, turn_content = sm\<rparr> # ext"
    using rn ext init by simp
  have one: "length (filter is_system (chat_history (fst (run (Agent n r sm) ops)))) = 1"
    using h ext(2) by (simp add: is_system_def)
  have sm: "system_message (fst (run (Agent n r sm) ops)) = sm"
    using rn ext(3) by (simp add: Agent_def)
  obtain b out where st: "step a x = (b, out)" by (cases "step a x")
  from step_history [OF st] have stp:
    "\<exists>ext. chat_history (fst (step a x)) = chat_history a @ ext \<and> filter is_system ext = []"
    using st by auto
  from init h ext(2) one sm stp demo1_main_history [of svc key lines] show ?thesis by blast
qed

text \<open>
  C6 (as stated): when the call of the Completion Service inside \<^verbatim>\<open>process\<close> fails,
  \<^verbatim>\<open>process\<close> fails with CompletionServiceError and the Conversation is exactly the
  Conversation before the call extended by the User turn: no Assistant or ToolResult turn
  is added by the failed call. \<^verbatim>\<open>process\<close> puts nothing around the call: the exception of
  the call leaves \<^verbatim>\<open>process\<close> as it is, and the call works on the Conversation itself, so
  a tool result appended before the failure stays. With a service that invokes one tool
  and fails afterwards, the Conversation ends with the User turn and a ToolResult turn.
\<close>

theorem process_completion_failure_counterexample:
  "process fails_after_tool (research_agent ''key'') ''hello'' =
     ((research_agent ''key'')\<lparr>chat_history := chat_history (research_agent ''key'') @
          [\<lparr>turn_role = User, turn_content = ''hello''\<rparr>,
           \<lparr>turn_role = ToolResult, turn_content = search_information ''python''\<rparr>]\<rparr>,
      Inl (Uncaught ()))
   \<and> chat_history (fst (process fails_after_tool (research_agent ''key'') ''hello''))
       \<noteq> chat_history (research_agent ''key'') @ [\<lparr>turn_role = User, turn_content = ''hello''\<rparr>]"
  by (simp add: process_def research_agent_eval dict_get_def
        get_prompt_execution_settings_from_service_id_def fails_after_tool_def
        add_user_message_def tool_result_turn_def Let_def)

text \<open>
  C6 (amended): when the call of the Completion Service inside \<^verbatim>\<open>process\<close> fails,
  \<^verbatim>\<open>process\<close> fails with the exception that the call raised, unchanged, and the
  Conversation is the Conversation before the call extended by the User turn of the
  message and by the ToolResult turns that the call appended before it failed: the User
  turn remains appended and no Assistant turn is added. When the call fails before any
  tool was invoked, the Conversation is exactly the Conversation before the call extended
  by the User turn. Nothing else of the Agent changes.
\<close>

theorem process_completion_failure:
  "service_id a = Some sid \<Longrightarrow> chat_service a = Some cs \<Longrightarrow>
   dict_get (services (kernel a)) sid = Some s \<Longrightarrow>
   svc cs (chat_history a @ [\<lparr>turn_role = User, turn_content = m\<rparr>])
       \<lparr>es_service_id = sid, function_choice = Some Auto\<rparr> (Some (kernel a)) = (rs, Inl e) \<Longrightarrow>
   process svc a m =
     (a\<lparr>chat_history := chat_history a @ [\<lparr>turn_role = User, turn_content = m\<rparr>]
          @ map tool_result_turn rs\<rparr>,
      Inl (Uncaught e))
   \<and> filter (\<lambda>t. turn_role t = Assistant) (chat_history (fst (process svc a m)))
       = filter (\<lambda>t. turn_role t = Assistant) (chat_history a)
   \<and> (rs = [] \<longrightarrow> chat_history (fst (process svc a m))
          = chat_history a @ [\<lparr>turn_role = User, turn_content = m\<rparr>])"
proof -
  assume "service_id a = Some sid" "chat_service a = Some cs"
    "dict_get (services (kernel a)) sid = Some s"
    "svc cs (chat_history a @ [\<lparr>turn_role = User, turn_content = m\<rparr>])
       \<lparr>es_service_id = sid, function_choice = Some Auto\<rparr> (Some (kernel a)) = (rs, Inl e)"
  from process_initialized [where svc = svc, OF this]
  have p: "process svc a m =
     (a\<lparr>chat_history := chat_history a @ [\<lparr>turn_role = User, turn_content = m\<rparr>]
          @ map tool_result_turn rs\<rparr>,
      Inl (Uncaught e))" by simp
  have "filter (\<lambda>t. turn_role t = Assistant) (map tool_result_turn rs) = []"
    by (induction rs) (simp_all add: tool_result_turn_def)
  with p show ?thesis by simp
qed

theorem process_completion_failure_witness:
  "service_id (research_agent ''key'') = Some ''gemini-chat''
   \<and> chat_service (research_agent ''key'')
        = Some (GoogleAIChatCompletion ''gemini-chat'' ''gemini-2.5-flash'' ''key'')
   \<and> dict_get (services (kernel (research_agent ''key''))) ''gemini-chat''
        = Some (GoogleAIChatCompletion ''gemini-chat'' ''gemini-2.5-flash'' ''key'')
   \<and> unreachable (GoogleAIChatCompletion ''gemini-chat'' ''gemini-2.5-flash'' ''key'')
        (chat_history (research_agent ''key'') @ [\<lparr>turn_role = User, turn_content = ''hello''\<rparr>])
        \<lparr>es_service_id = ''gemini-chat'', function_choice = Some Auto\<rparr>
        (Some (kernel (research_agent ''key''))) = ([], Inl ())
   \<and> process unreachable (research_agent ''key'') ''hello'' =
       ((research_agent ''key'')\<lparr>chat_history := chat_history (research_agent ''key'') @
            [\<lparr>turn_role = User, turn_content = ''hello''\<rparr>] @ map tool_result_turn []\<rparr>,
        Inl (Uncaught ()))
   \<and> chat_history (fst (process unreachable (research_agent ''key'') ''hello''))
       = chat_history (research_agent ''key'') @ [\<lparr>turn_role = User, turn_content = ''hello''\<rparr>]"
proof -
  let ?a = "research_agent ''key''"
  let ?cs = "GoogleAIChatCompletion ''gemini-chat'' ''gemini-2.5-flash'' ''key''"
  have h1: "service_id ?a = Some ''gemini-chat''" by (simp add: research_agent_eval)
  have h2: "chat_service ?a = Some ?cs"
    by (simp add: research_agent_eval GoogleAIChatCompletion_def)
  have h3: "dict_get (services (kernel ?a)) ''gemini-chat'' = Some ?cs"
    by (simp add: research_agent_eval GoogleAIChatCompletion_def dict_get_def)
  have h4: "unreachable ?cs (chat_history ?a @ [\<lparr>turn_role = User, turn_content = ''hello''\<rparr>])
            \<lparr>es_service_id = ''gemini-chat'', function_choice = Some Auto\<rparr> (Some (kernel ?a))
          = ([], Inl ())"
    by (simp add: unreachable_def)
  from process_completion_failure [where svc = unreachable, OF h1 h2 h3 h4] h1 h2 h3 h4
  show ?thesis by blast
qed

text \<open>
  C10: a call of \<^verbatim>\<open>process\<close>, whether it returns or raises, leaves the name, the role, the
  system message, the kernel with its plugins and services, and the service binding of
  the Agent as they were; only the Conversation changes. When the call returns, the
  string it returns is the content of the Assistant turn it appended, which is the last
  turn of the Conversation.
\<close>

theorem process_frame:
  "process svc a m = (a', res) \<Longrightarrow>
     name a' = name a \<and> role a' = role a \<and> system_message a' = system_message a
     \<and> kernel a' = kernel a \<and> service_id a' = service_id a
     \<and> chat_service a' = chat_service a
     \<and> a' = a\<lparr>chat_history := chat_history a'\<rparr>
     \<and> (\<forall>reply. res = Inr reply \<longrightarrow>
          (\<exists>rs. chat_history a' = chat_history a @ exchange m rs reply)
          \<and> last (chat_history a') = \<lparr>turn_role = Assistant, turn_content = reply\<rparr>)"
proof -
  assume pr: "process svc a m = (a', res)"
  from process_result [OF pr] have eq: "a' = a\<lparr>chat_history := chat_history a'\<rparr>"
    and hist: "\<exists>rs. case res of
        Inl e \<Rightarrow> chat_history a' = chat_history a @ [\<lparr>turn_role = User, turn_content = m\<rparr>]
                   @ map tool_result_turn rs
      | Inr r \<Rightarrow> chat_history a' = chat_history a @ exchange m rs r"
    by blast+
  have "name (a\<lparr>chat_history := chat_history a'\<rparr>) = name a"
    "role (a\<lparr>chat_history := chat_history a'\<rparr>) = role a"
    "system_message (a\<lparr>chat_history := chat_history a'\<rparr>) = system_message a"
    "kernel (a\<lparr>chat_history := chat_history a'\<rparr>) = kernel a"
    "service_id (a\<lparr>chat_history := chat_history a'\<rparr>) = service_id a"
    "chat_service (a\<lparr>chat_history := chat_history a'\<rparr>) = chat_service a"
    by simp_all
  with eq have fields: "name a' = name a" "role a' = role a"
    "system_message a' = system_message a" "kernel a' = kernel a"
    "service_id a' = service_id a" "chat_service a' = chat_service a"
    by metis+
  have "\<forall>reply. res = Inr reply \<longrightarrow>
          (\<exists>rs. chat_history a' = chat_history a @ exchange m rs reply)
          \<and> last (chat_history a') = \<lparr>turn_role = Assistant, turn_content = reply\<rparr>"
  proof (intro allI impI)
    fix reply assume "res = Inr reply"
    with hist obtain rs where h: "chat_history a' = chat_history a @ exchange m rs reply"
      by auto
    then have "last (chat_history a') = \<lparr>turn_role = Assistant, turn_content = reply\<rparr>"
      by (simp add: exchange_def)
    with h show "(\<exists>rs. chat_history a' = chat_history a @ exchange m rs reply)
          \<and> last (chat_history a') = \<lparr>turn_role = Assistant, turn_content = reply\<rparr>"
      by blast
  qed
  with fields eq show ?thesis by blast
qed

theorem process_frame_witness:
  "process (answers ''hi'') (research_agent ''key'') ''hello''
     = (fst (process (answers ''hi'') (research_agent ''key'') ''hello''), Inr ''hi'')
   \<and> name (fst (process (answers ''hi'') (research_agent ''key'') ''hello''))
       = name (research_agent ''key'')
   \<and> kernel (fst (process (answers ''hi'') (research_agent ''key'') ''hello''))
       = kernel (research_agent ''key'')
   \<and> last (chat_history (fst (process (answers ''hi'') (research_agent ''key'') ''hello'')))
       = \<lparr>turn_role = Assistant, turn_content = ''hi''\<rparr>"
proof -
  have "snd (process (answers ''hi'') (research_agent ''key'') ''hello'') = Inr ''hi''"
    by (simp add: research_agent_eval process_def dict_get_def
        get_prompt_execution_settings_from_service_id_def answers_def
        add_user_message_def add_assistant_message_def str_response_def Let_def)
  then have p: "process (answers ''hi'') (research_agent ''key'') ''hello'' =
       (fst (process (answers ''hi'') (research_agent ''key'') ''hello''), Inr ''hi'')"
    by (metis prod.collapse)
  from process_frame [OF p] p show ?thesis by blast
qed

section \<open>Claims about the Orchestrator\<close>

text \<open>
  C7: after \<^verbatim>\<open>add_agent(a)\<close>, \<^verbatim>\<open>get_agent(a.name)\<close> returns the Agent \<open>a\<close> itself; and
  \<^verbatim>\<open>get_agent\<close> of a name that was never added returns the value \<^verbatim>\<open>None\<close>: the lookup has
  no failing branch.
\<close>

theorem get_agent_after_add_agent:
  "get_agent (add_agent orch a) (name a) = Some a
   \<and> (n \<notin> set (map name as) \<longrightarrow> get_agent (foldl add_agent Orchestrator as) n = None)"
proof (intro conjI impI)
  show "get_agent (add_agent orch a) (name a) = Some a"
    by (simp add: get_agent_def add_agent_def dict_get_def map_of_dict_set_same)
next
  assume "n \<notin> set (map name as)"
  with orchestrator_invariant [of as]
  have "n \<notin> set (map fst (agents (foldl add_agent Orchestrator as)))" by blast
  then have "n \<notin> fst ` set (agents (foldl add_agent Orchestrator as))" by simp
  then show "get_agent (foldl add_agent Orchestrator as) n = None"
    by (simp add: get_agent_def dict_get_def map_of_eq_None_iff)
qed

theorem get_agent_after_add_agent_witness:
  "''missing'' \<notin> set (map name [research_agent ''key'', writer_agent ''key''])
   \<and> get_agent (foldl add_agent Orchestrator [research_agent ''key'', writer_agent ''key''])
        ''missing'' = None
   \<and> get_agent (add_agent (add_agent Orchestrator (research_agent ''key''))
          (writer_agent ''key'')) (name (writer_agent ''key''))
       = Some (writer_agent ''key'')"
proof -
  have h: "''missing'' \<notin> set (map name [research_agent ''key'', writer_agent ''key''])"
    by (simp add: research_agent_eval writer_agent_eval)
  from h get_agent_after_add_agent [of "add_agent Orchestrator (research_agent ''key'')"
      "writer_agent ''key''" "''missing''" "[research_agent ''key'', writer_agent ''key'']"]
  show ?thesis by blast
qed

text \<open>
  C9: for two Agents with the same name, \<^verbatim>\<open>add_agent(a1)\<close> followed by \<^verbatim>\<open>add_agent(a2)\<close>
  raises nothing (\<^verbatim>\<open>add_agent\<close> has no failing branch); afterwards \<^verbatim>\<open>get_agent\<close> of the name
  returns \<open>a2\<close>, and \<^verbatim>\<open>list_agents\<close> has exactly one entry for the name, at the position
  that the entry of \<open>a1\<close> had, now with the role of \<open>a2\<close>; every other entry is as before.
\<close>

theorem add_agent_same_name_overwrites:
  "name a1 = name a2 \<Longrightarrow>
   orch = foldl add_agent Orchestrator as \<Longrightarrow>
     get_agent (add_agent (add_agent orch a1) a2) (name a1) = Some a2
     \<and> length (filter (\<lambda>s. summary_name s = name a1)
          (list_agents (add_agent (add_agent orch a1) a2))) = 1
     \<and> (\<exists>i < length (list_agents (add_agent orch a1)).
           list_agents (add_agent orch a1) ! i
             = \<lparr>summary_name = name a1, summary_role = role a1\<rparr>
         \<and> list_agents (add_agent (add_agent orch a1) a2)
             = (list_agents (add_agent orch a1))
                 [i := \<lparr>summary_name = name a2, summary_role = role a2\<rparr>])"
proof -
  assume same: "name a1 = name a2" and orch: "orch = foldl add_agent Orchestrator as"
  let ?k = "name a1"
  let ?d1 = "agents (add_agent orch a1)"
  let ?d2 = "agents (add_agent (add_agent orch a1) a2)"
  let ?f = "\<lambda>a. \<lparr>summary_name = name a, summary_role = role a\<rparr>"
  have o1: "add_agent orch a1 = foldl add_agent Orchestrator (as @ [a1])"
    and o2: "add_agent (add_agent orch a1) a2 = foldl add_agent Orchestrator (as @ [a1, a2])"
    using orch by simp_all
  from orchestrator_invariant [of "as @ [a1]"] o1
  have dist1: "distinct (map fst ?d1)" by simp
  from orchestrator_invariant [of "as @ [a1, a2]"] o2
  have dist2: "distinct (map fst ?d2)"
    and names2: "map (\<lambda>e. name (snd e)) ?d2 = map fst ?d2" by simp_all
  have d1: "?d1 = dict_set (agents orch) ?k a1" by (simp add: agents_add_agent)
  have d2: "?d2 = dict_set ?d1 ?k a2" using same by (simp add: agents_add_agent)
  have k1: "?k \<in> set (map fst ?d1)" unfolding d1 keys_dict_set by simp
  have k2: "?k \<in> set (map fst ?d2)" unfolding d2 keys_dict_set by simp
  have get: "get_agent (add_agent (add_agent orch a1) a2) ?k = Some a2"
    unfolding get_agent_def dict_get_def d2 by (rule map_of_dict_set_same)
  have "map summary_name (list_agents (add_agent (add_agent orch a1) a2)) = map fst ?d2"
    using names2 by (simp add: list_agents_def dict_values_def comp_def)
  then have "length (filter (\<lambda>s. summary_name s = ?k)
      (list_agents (add_agent (add_agent orch a1) a2)))
      = length (filter (\<lambda>y. y = ?k) (map fst ?d2))"
    by (metis (mono_tags, lifting) filter_map length_map comp_def filter_cong)
  also have "\<dots> = 1" using dist2 k2 by (rule distinct_count_one)
  finally have count: "length (filter (\<lambda>s. summary_name s = ?k)
      (list_agents (add_agent (add_agent orch a1) a2))) = 1" .
  from dict_set_present [OF k1, of a2] obtain i where i:
    "i < length ?d1" "fst (?d1 ! i) = ?k" "dict_set ?d1 ?k a2 = ?d1[i := (?k, a2)]"
    by blast
  have "map_of ?d1 ?k = Some a1" unfolding d1 by (rule map_of_dict_set_same)
  moreover have "(fst (?d1 ! i), snd (?d1 ! i)) \<in> set ?d1" using i(1) by simp
  ultimately have v: "snd (?d1 ! i) = a1"
    using dist1 i(2) by (metis map_of_eq_Some_iff option.inject)
  have l1: "i < length (list_agents (add_agent orch a1))"
    using i(1) by (simp add: list_agents_def dict_values_def)
  have l2: "list_agents (add_agent orch a1) ! i = ?f a1"
    using i(1) v by (simp add: list_agents_def dict_values_def)
  have l3: "list_agents (add_agent (add_agent orch a1) a2)
      = (list_agents (add_agent orch a1))[i := ?f a2]"
    using d2 i(3) by (simp add: list_agents_def dict_values_def map_update)
  from get count l1 l2 l3 show ?thesis by blast
qed

theorem add_agent_same_name_overwrites_witness:
  "name (research_agent ''key'') = name ((writer_agent ''key'')\<lparr>name := ''ResearchAgent''\<rparr>)
   \<and> get_agent (add_agent (add_agent (foldl add_agent Orchestrator [writer_agent ''key''])
         (research_agent ''key'')) ((writer_agent ''key'')\<lparr>name := ''ResearchAgent''\<rparr>))
       (name (research_agent ''key''))
      = Some ((writer_agent ''key'')\<lparr>name := ''ResearchAgent''\<rparr>)
   \<and> length (filter (\<lambda>s. summary_name s = name (research_agent ''key''))
        (list_agents (add_agent (add_agent (foldl add_agent Orchestrator [writer_agent ''key''])
         (research_agent ''key'')) ((writer_agent ''key'')\<lparr>name := ''ResearchAgent''\<rparr>)))) = 1"
proof -
  have h: "name (research_agent ''key'')
      = name ((writer_agent ''key'')\<lparr>name := ''ResearchAgent''\<rparr>)"
    by (simp add: research_agent_eval)
  from add_agent_same_name_overwrites [OF h refl, of "[writer_agent ''key'']"] h
  show ?thesis by blast
qed

end
